theory Spec2Isabelle
  imports Complex_Main
begin

text \<open>
  A model of the modelwrangler sources: the parameter objects and the layer builders of
  \<^verbatim>\<open>tf_models.py\<close>, the autoencoder networks of \<^verbatim>\<open>corral/\<close>, and the wrangler of
  \<^verbatim>\<open>model_wrangler.py\<close> with its training loop, its persistence and its feature
  importance. Python's exceptions are values of the type \<open>exc\<close>, a function that may
  raise returns \<open>exc + 'a\<close>, and a function that acts on the file system or on the tensor
  engine takes and returns the state it acts on. The first part holds the definitions,
  the second the properties proved of them.
\<close>

section \<open>Python values\<close>

text \<open>
  The parameter objects of \<^verbatim>\<open>tf_models.py\<close> and \<^verbatim>\<open>model_wrangler.py\<close> are
  attribute bags filled from keyword arguments, so their fields hold arbitrary Python
  values. A finite float is the rational number it denotes (every finite double is one);
  NaN and the infinities are not represented. A dict is an association list in insertion
  order; its keys are strings, as in every dict the source builds (keyword arguments,
  \<^verbatim>\<open>vars(self)\<close>, \<^verbatim>\<open>__dict__\<close>). \<open>PClass\<close> is a network class passed as
  a value and \<open>PObject\<close> an instance of some other class, named by its class.
\<close>

datatype model_class = BaseNetworkC | DenseAutoencoderModelC | ConvolutionalAutoencoderModelC

datatype pyval =
    PNone
  | PBool bool
  | PInt int
  | PFloat rat
  | PStr string
  | PList "pyval list"
  | PTuple "pyval list"
  | PDict "(string \<times> pyval) list"
  | PClass model_class
  | PObject string

datatype exc =
    KeyboardInterrupt
  | AttributeError string
  | TypeError
  | AssertionError
  | OSError
  | ValueError

text \<open>Truth value testing, as \<^verbatim>\<open>if x:\<close> does it.\<close>

fun truthy :: "pyval \<Rightarrow> bool" where
  "truthy PNone = False"
| "truthy (PBool b) = b"
| "truthy (PInt i) = (i \<noteq> 0)"
| "truthy (PFloat r) = (r \<noteq> 0)"
| "truthy (PStr s) = (s \<noteq> [])"
| "truthy (PList xs) = (xs \<noteq> [])"
| "truthy (PTuple xs) = (xs \<noteq> [])"
| "truthy (PDict kvs) = (kvs \<noteq> [])"
| "truthy (PClass c) = True"
| "truthy (PObject n) = True"

text \<open>\<^verbatim>\<open>kwargs.get(key, default)\<close> on a dict.\<close>

definition dict_get :: "(string \<times> pyval) list \<Rightarrow> string \<Rightarrow> pyval \<Rightarrow> pyval" where
  "dict_get kwargs key dflt = (case map_of kwargs key of None \<Rightarrow> dflt | Some v \<Rightarrow> v)"

text \<open>\<^verbatim>\<open>'_'.join(name_stack)\<close>.\<close>

fun join_underscore :: "string list \<Rightarrow> string" where
  "join_underscore [] = []"
| "join_underscore [x] = x"
| "join_underscore (x # y # ys) = x @ ''_'' @ join_underscore (y # ys)"

section \<open>Layer options\<close>

text \<open>
  Modelled from the spec: the classes \<^verbatim>\<open>LayerConfig\<close> and \<^verbatim>\<open>ConvLayerConfig\<close>
  live in \<^verbatim>\<open>layer_configs.py\<close>, which is not among the sources. The spec gives a
  layer option the fields activation, bias, regularization, batchnorm and dropout_rate,
  and the convolutional subtype kernel, strides and pool_size on top of them; the
  builders of \<^verbatim>\<open>tf_models.py\<close> read exactly these attributes. The resolvers
  (\<^verbatim>\<open>activation_func()\<close>, \<^verbatim>\<open>conv_func()\<close>, ...) hand the configured kind to the
  tensor engine; a graph node records the option it was resolved from.
\<close>

record LayerConfig =
  activation :: pyval
  bias :: pyval
  act_reg :: pyval
  batchnorm :: pyval
  dropout_rate :: pyval

record ConvLayerConfig = LayerConfig +
  kernel :: pyval
  strides :: pyval
  pool_size :: pyval

text \<open>
  Modelled from the spec: the constructors \<^verbatim>\<open>LayerConfig(**kwargs)\<close> and
  \<^verbatim>\<open>ConvLayerConfig(**kwargs)\<close>: named overrides on top of the class defaults. The
  defaults themselves are in the missing file and stay a parameter.
\<close>

definition LayerConfig_init :: "LayerConfig \<Rightarrow> (string \<times> pyval) list \<Rightarrow> LayerConfig" where
  "LayerConfig_init dflt kwargs =
     \<lparr> activation = dict_get kwargs ''activation'' (activation dflt),
       bias = dict_get kwargs ''bias'' (bias dflt),
       act_reg = dict_get kwargs ''act_reg'' (act_reg dflt),
       batchnorm = dict_get kwargs ''batchnorm'' (batchnorm dflt),
       dropout_rate = dict_get kwargs ''dropout_rate'' (dropout_rate dflt) \<rparr>"

definition ConvLayerConfig_init :: "ConvLayerConfig \<Rightarrow> (string \<times> pyval) list \<Rightarrow> ConvLayerConfig" where
  "ConvLayerConfig_init dflt kwargs =
     \<lparr> activation = dict_get kwargs ''activation'' (activation dflt),
       bias = dict_get kwargs ''bias'' (bias dflt),
       act_reg = dict_get kwargs ''act_reg'' (act_reg dflt),
       batchnorm = dict_get kwargs ''batchnorm'' (batchnorm dflt),
       dropout_rate = dict_get kwargs ''dropout_rate'' (dropout_rate dflt),
       kernel = dict_get kwargs ''kernel'' (kernel dflt),
       strides = dict_get kwargs ''strides'' (strides dflt),
       pool_size = dict_get kwargs ''pool_size'' (pool_size dflt) \<rparr>"

text \<open>
  What an attribute of a params object holds, and what a builder is handed as
  \<^verbatim>\<open>layer_config\<close>: a plain value (a dict among them: the state of an option
  attribute after \<^verbatim>\<open>save()\<close>), or an instance of either option class.
\<close>

datatype pyobj =
    Val pyval
  | LayerConfigObj LayerConfig
  | ConvLayerConfigObj ConvLayerConfig

section \<open>The computation graph\<close>

text \<open>
  The tensor engine is an external collaborator: each call that declares a layer returns
  a new handle. A handle is the call that made it, with its arguments, so the graph is
  the term. The fields are, in order: the input handle (where there is one), the
  arguments the source passes, and the layer's name.
\<close>

datatype tensor =
    Placeholder string string "pyval list option"
  | Dense tensor pyval pyval pyval pyval string
  | BatchNormalization tensor tensor string
  | DropoutLayer tensor pyval tensor string
  | ConvLayer tensor pyval pyval pyval string
  | DeconvLayer tensor pyval pyval pyval string
  | MaxPooling tensor pyval string
  | UnpoolLayer tensor pyval string
  | UnstrideLayer tensor pyval string
  | FitToShape tensor "pyval list option"

datatype loss_handle = LossMSE tensor tensor | LossSigmoidCE tensor tensor

text \<open>\<^verbatim>\<open>get_shape().as_list()\<close> of the handles the source asks it of.\<close>

fun get_shape :: "tensor \<Rightarrow> pyval list option" where
  "get_shape (Placeholder dtype name shape) = shape"
| "get_shape (FitToShape t shape) = shape"
| "get_shape _ = None"

subsection \<open>Primitive stages (\<^verbatim>\<open>BaseNetwork._make_*\<close>)\<close>

definition make_batchnorm :: "tensor \<Rightarrow> tensor \<Rightarrow> string \<Rightarrow> tensor" where
  "make_batchnorm is_training input_layer name = BatchNormalization input_layer is_training name"

definition make_dropout :: "tensor \<Rightarrow> tensor \<Rightarrow> string \<Rightarrow> 'a LayerConfig_scheme \<Rightarrow> tensor" where
  "make_dropout is_training input_layer name layer_config =
     DropoutLayer input_layer (dropout_rate layer_config) is_training name"

definition make_conv :: "tensor \<Rightarrow> pyval \<Rightarrow> string \<Rightarrow> 'a ConvLayerConfig_scheme \<Rightarrow> tensor" where
  "make_conv input_layer num_units name layer_config =
     ConvLayer input_layer num_units (kernel layer_config) (strides layer_config) name"

definition make_deconv :: "tensor \<Rightarrow> pyval \<Rightarrow> string \<Rightarrow> 'a ConvLayerConfig_scheme \<Rightarrow> tensor" where
  "make_deconv input_layer num_units name layer_config =
     DeconvLayer input_layer num_units (kernel layer_config) (strides layer_config) name"

definition make_maxpooling :: "tensor \<Rightarrow> string \<Rightarrow> 'a ConvLayerConfig_scheme \<Rightarrow> tensor" where
  "make_maxpooling input_layer name layer_config =
     MaxPooling input_layer (pool_size layer_config) name"

text \<open>\<^verbatim>\<open>i - 1\<close> on a Python value; \<^verbatim>\<open>bool\<close> is a subclass of \<^verbatim>\<open>int\<close>.\<close>

fun minus_one :: "pyval \<Rightarrow> exc + pyval" where
  "minus_one (PInt i) = Inr (PInt (i - 1))"
| "minus_one (PBool b) = Inr (PInt ((if b then 1 else 0) - 1))"
| "minus_one (PFloat r) = Inr (PFloat (r - 1))"
| "minus_one _ = Inl TypeError"

fun minus_one_each :: "pyval list \<Rightarrow> exc + pyval list" where
  "minus_one_each [] = Inr []"
| "minus_one_each (x # xs) =
     (case minus_one x of
        Inl e \<Rightarrow> Inl e
      | Inr y \<Rightarrow> (case minus_one_each xs of Inl e \<Rightarrow> Inl e | Inr ys \<Rightarrow> Inr (y # ys)))"

text \<open>
  \<^verbatim>\<open>pad_size\<close> of \<^verbatim>\<open>_make_unpool\<close>: \<^verbatim>\<open>pool_size - 1\<close> for an int, else the list
  comprehension \<^verbatim>\<open>[i - 1 for i in pool_size]\<close>, which raises on a value that cannot be
  iterated or whose elements are not numbers (the characters of a string, the keys of a
  dict).
\<close>

fun pad_size :: "pyval \<Rightarrow> exc + pyval" where
  "pad_size (PInt i) = Inr (PInt (i - 1))"
| "pad_size (PBool b) = Inr (PInt ((if b then 1 else 0) - 1))"
| "pad_size (PList xs) = (case minus_one_each xs of Inl e \<Rightarrow> Inl e | Inr ys \<Rightarrow> Inr (PList ys))"
| "pad_size (PTuple xs) = (case minus_one_each xs of Inl e \<Rightarrow> Inl e | Inr ys \<Rightarrow> Inr (PList ys))"
| "pad_size (PStr s) = (if s = [] then Inr (PList []) else Inl TypeError)"
| "pad_size (PDict kvs) = (if kvs = [] then Inr (PList []) else Inl TypeError)"
| "pad_size _ = Inl TypeError"

definition make_unpool :: "tensor \<Rightarrow> string \<Rightarrow> 'a ConvLayerConfig_scheme \<Rightarrow> exc + tensor" where
  "make_unpool input_layer name layer_config =
     (case pad_size (pool_size layer_config) of
        Inl e \<Rightarrow> Inl e
      | Inr p \<Rightarrow> Inr (UnpoolLayer input_layer p name))"

definition make_unstride :: "tensor \<Rightarrow> string \<Rightarrow> 'a ConvLayerConfig_scheme \<Rightarrow> tensor" where
  "make_unstride input_layer name layer_config =
     UnstrideLayer input_layer (strides layer_config) name"

subsection \<open>Layer stacks\<close>

text \<open>
  Each builder keeps two lists, \<^verbatim>\<open>name_stack\<close> and \<^verbatim>\<open>layer_stack\<close>, appends one
  entry to both for every optional stage whose option is truthy, and returns
  \<^verbatim>\<open>layer_stack[-1]\<close>. The functions \<open>*_stack\<close> are the bodies after the argument
  check and return the pair of lists; \<open>make_*_layer\<close> are the methods.
\<close>

type_synonym stacks = "string list \<times> tensor list"

definition push_stage :: "string \<Rightarrow> (tensor \<Rightarrow> string \<Rightarrow> tensor) \<Rightarrow> stacks \<Rightarrow> stacks" where
  "push_stage suffix mk st =
     (let name_stack = fst st @ [suffix]
      in (name_stack, snd st @ [mk (last (snd st)) (join_underscore name_stack)]))"

definition dense_stack ::
  "tensor \<Rightarrow> tensor \<Rightarrow> pyval \<Rightarrow> string \<Rightarrow> 'a LayerConfig_scheme \<Rightarrow> stacks" where
  "dense_stack is_training input_layer num_units label layer_config =
     (let st0 = ([label],
                 [Dense input_layer num_units (activation layer_config) (bias layer_config)
                    (act_reg layer_config) (join_underscore [label])]);
          st1 = (if truthy (batchnorm layer_config)
                 then push_stage ''batchnorm'' (make_batchnorm is_training) st0 else st0);
          st2 = (if truthy (dropout_rate layer_config)
                 then push_stage ''dropout''
                        (\<lambda>t n. make_dropout is_training t n layer_config) st1
                 else st1)
      in st2)"

definition conv_stack ::
  "tensor \<Rightarrow> tensor \<Rightarrow> pyval \<Rightarrow> string \<Rightarrow> 'a ConvLayerConfig_scheme \<Rightarrow> stacks" where
  "conv_stack is_training input_layer num_units label layer_config =
     (let st0 = ([label], [make_conv input_layer num_units (join_underscore [label]) layer_config]);
          st1 = (if truthy (batchnorm layer_config)
                 then push_stage ''batchnorm'' (make_batchnorm is_training) st0 else st0);
          st2 = (if truthy (pool_size layer_config)
                 then push_stage ''pooling'' (\<lambda>t n. make_maxpooling t n layer_config) st1
                 else st1);
          st3 = (if truthy (dropout_rate layer_config)
                 then push_stage ''dropout''
                        (\<lambda>t n. make_dropout is_training t n layer_config) st2
                 else st2)
      in st3)"

definition deconv_stack ::
  "tensor \<Rightarrow> tensor \<Rightarrow> pyval \<Rightarrow> string \<Rightarrow> 'a ConvLayerConfig_scheme \<Rightarrow> exc + stacks" where
  "deconv_stack is_training input_layer num_units label layer_config =
     (let st0 = ([label], [make_deconv input_layer num_units (join_underscore [label]) layer_config]);
          st1 = (if truthy (batchnorm layer_config)
                 then push_stage ''batchnorm'' (make_batchnorm is_training) st0 else st0)
      in case (if truthy (pool_size layer_config)
               then (case make_unpool (last (snd st1))
                            (join_underscore (fst st1 @ [''unpool''])) layer_config of
                       Inl e \<Rightarrow> Inl e
                     | Inr u \<Rightarrow> Inr (fst st1 @ [''unpool''], snd st1 @ [u]))
               else Inr st1) of
           Inl e \<Rightarrow> Inl e
         | Inr st2 \<Rightarrow>
             (let st3 = (if truthy (strides layer_config)
                         then push_stage ''unstride'' (\<lambda>t n. make_unstride t n layer_config) st2
                         else st2);
                  st4 = (if truthy (dropout_rate layer_config)
                         then push_stage ''dropout''
                                (\<lambda>t n. make_dropout is_training t n layer_config) st3
                         else st3)
              in Inr st4))"

text \<open>
  The methods: a dict is promoted to the option class first, then
  \<^verbatim>\<open>assert isinstance(layer_config, ...)\<close>. \<^verbatim>\<open>ConvLayerConfig\<close> is the subtype, so a
  dense layer accepts it and a convolutional layer does not accept a plain
  \<^verbatim>\<open>LayerConfig\<close>. The class defaults are the parameter \<open>dflt\<close>.
\<close>

fun make_dense_layer ::
  "LayerConfig \<Rightarrow> tensor \<Rightarrow> tensor \<Rightarrow> pyval \<Rightarrow> string \<Rightarrow> pyobj \<Rightarrow> exc + tensor" where
  "make_dense_layer dflt is_training input_layer num_units label (Val (PDict d)) =
     Inr (last (snd (dense_stack is_training input_layer num_units label (LayerConfig_init dflt d))))"
| "make_dense_layer dflt is_training input_layer num_units label (LayerConfigObj c) =
     Inr (last (snd (dense_stack is_training input_layer num_units label c)))"
| "make_dense_layer dflt is_training input_layer num_units label (ConvLayerConfigObj c) =
     Inr (last (snd (dense_stack is_training input_layer num_units label c)))"
| "make_dense_layer dflt is_training input_layer num_units label (Val v) = Inl AssertionError"

fun make_conv_layer ::
  "ConvLayerConfig \<Rightarrow> tensor \<Rightarrow> tensor \<Rightarrow> pyval \<Rightarrow> string \<Rightarrow> pyobj \<Rightarrow> exc + tensor" where
  "make_conv_layer dflt is_training input_layer num_units label (Val (PDict d)) =
     Inr (last (snd (conv_stack is_training input_layer num_units label (ConvLayerConfig_init dflt d))))"
| "make_conv_layer dflt is_training input_layer num_units label (ConvLayerConfigObj c) =
     Inr (last (snd (conv_stack is_training input_layer num_units label c)))"
| "make_conv_layer dflt is_training input_layer num_units label (LayerConfigObj c) = Inl AssertionError"
| "make_conv_layer dflt is_training input_layer num_units label (Val v) = Inl AssertionError"

fun make_deconv_layer ::
  "ConvLayerConfig \<Rightarrow> tensor \<Rightarrow> tensor \<Rightarrow> pyval \<Rightarrow> string \<Rightarrow> pyobj \<Rightarrow> exc + tensor" where
  "make_deconv_layer dflt is_training input_layer num_units label (Val (PDict d)) =
     (case deconv_stack is_training input_layer num_units label (ConvLayerConfig_init dflt d) of
        Inl e \<Rightarrow> Inl e | Inr st \<Rightarrow> Inr (last (snd st)))"
| "make_deconv_layer dflt is_training input_layer num_units label (ConvLayerConfigObj c) =
     (case deconv_stack is_training input_layer num_units label c of
        Inl e \<Rightarrow> Inl e | Inr st \<Rightarrow> Inr (last (snd st)))"
| "make_deconv_layer dflt is_training input_layer num_units label (LayerConfigObj c) = Inl AssertionError"
| "make_deconv_layer dflt is_training input_layer num_units label (Val v) = Inl AssertionError"

text \<open>The kind of stage a handle is, and the handle it was built on.\<close>

datatype stage = Input | Transform | Batchnorm | Pool | Unpool | Unstride | Dropout | Fit

fun stage_of :: "tensor \<Rightarrow> stage" where
  "stage_of (Placeholder d n s) = Input"
| "stage_of (Dense t u a b r n) = Transform"
| "stage_of (ConvLayer t u k s n) = Transform"
| "stage_of (DeconvLayer t u k s n) = Transform"
| "stage_of (BatchNormalization t f n) = Batchnorm"
| "stage_of (MaxPooling t p n) = Pool"
| "stage_of (UnpoolLayer t p n) = Unpool"
| "stage_of (UnstrideLayer t s n) = Unstride"
| "stage_of (DropoutLayer t r f n) = Dropout"
| "stage_of (FitToShape t s) = Fit"

fun input_of :: "tensor \<Rightarrow> tensor option" where
  "input_of (Placeholder d n s) = None"
| "input_of (Dense t u a b r n) = Some t"
| "input_of (ConvLayer t u k s n) = Some t"
| "input_of (DeconvLayer t u k s n) = Some t"
| "input_of (BatchNormalization t f n) = Some t"
| "input_of (MaxPooling t p n) = Some t"
| "input_of (UnpoolLayer t p n) = Some t"
| "input_of (UnstrideLayer t s n) = Some t"
| "input_of (DropoutLayer t r f n) = Some t"
| "input_of (FitToShape t s) = Some t"

text \<open>Every entry of a layer stack after the first is built on the entry before it.\<close>

fun chained :: "tensor list \<Rightarrow> bool" where
  "chained [] = True"
| "chained [t] = True"
| "chained (t # u # us) = (input_of u = Some t \<and> chained (u # us))"

definition opt_stage :: "pyval \<Rightarrow> stage \<Rightarrow> stage list" where
  "opt_stage option s = (if truthy option then [s] else [])"

section \<open>Attribute bags\<close>

text \<open>
  A params object stores every parameter as an instance attribute; \<^verbatim>\<open>vars(self)\<close> is
  the dict of them, in the order they were first set. Reading an attribute that was never
  set raises \<^verbatim>\<open>AttributeError\<close>.
\<close>

type_synonym attrs = "(string \<times> pyobj) list"


definition getattr :: "attrs \<Rightarrow> string \<Rightarrow> exc + pyobj" where
  "getattr self k = (case map_of self k of None \<Rightarrow> Inl (AttributeError k) | Some v \<Rightarrow> Inr v)"

text \<open>Sequencing of calls that may raise: the first exception ends the computation.\<close>

definition bind_exc :: "exc + 'a \<Rightarrow> ('a \<Rightarrow> exc + 'b) \<Rightarrow> exc + 'b" where
  "bind_exc m f = (case m of Inl e \<Rightarrow> Inl e | Inr x \<Rightarrow> f x)"

text \<open>
  A params attribute as the engine receives it. An option object passed where a number
  or a name is expected is just some object to the engine.
\<close>

fun as_val :: "pyobj \<Rightarrow> pyval" where
  "as_val (Val v) = v"
| "as_val (LayerConfigObj c) = PObject ''LayerConfig''"
| "as_val (ConvLayerConfigObj c) = PObject ''ConvLayerConfig''"

definition getattr_val :: "attrs \<Rightarrow> string \<Rightarrow> exc + pyval" where
  "getattr_val self k = bind_exc (getattr self k) (\<lambda>v. Inr (as_val v))"

text \<open>A value used where the source needs a \<^verbatim>\<open>str\<close> (a path component, a name).\<close>

fun as_str :: "pyobj \<Rightarrow> exc + string" where
  "as_str (Val (PStr s)) = Inr s"
| "as_str _ = Inl TypeError"

text \<open>Iterating a value, as \<^verbatim>\<open>enumerate(params.encode_nodes)\<close> does.\<close>

fun iterate :: "pyval \<Rightarrow> exc + pyval list" where
  "iterate (PList xs) = Inr xs"
| "iterate (PTuple xs) = Inr xs"
| "iterate (PStr s) = Inr (map (\<lambda>c. PStr [c]) s)"
| "iterate (PDict kvs) = Inr (map (\<lambda>kv. PStr (fst kv)) kvs)"
| "iterate _ = Inl TypeError"

section \<open>JSON documents\<close>

text \<open>
  What \<^verbatim>\<open>json.dump\<close> writes and \<^verbatim>\<open>json.load\<close> reads, as the document's tree
  (the text, its indentation and its escapes belong to the library). A tuple is written as
  an array; a class, or an instance of a class the encoder does not know, raises
  \<^verbatim>\<open>TypeError\<close>.
\<close>

datatype json =
    JNull
  | JBool bool
  | JInt int
  | JFloat rat
  | JString string
  | JArray "json list"
  | JObject "(string \<times> json) list"

fun json_dump :: "pyval \<Rightarrow> exc + json"
  and json_dump_list :: "pyval list \<Rightarrow> exc + json list"
  and json_dump_items :: "(string \<times> pyval) list \<Rightarrow> exc + (string \<times> json) list" where
  "json_dump PNone = Inr JNull"
| "json_dump (PBool b) = Inr (JBool b)"
| "json_dump (PInt i) = Inr (JInt i)"
| "json_dump (PFloat r) = Inr (JFloat r)"
| "json_dump (PStr s) = Inr (JString s)"
| "json_dump (PList xs) = (case json_dump_list xs of Inl e \<Rightarrow> Inl e | Inr js \<Rightarrow> Inr (JArray js))"
| "json_dump (PTuple xs) = (case json_dump_list xs of Inl e \<Rightarrow> Inl e | Inr js \<Rightarrow> Inr (JArray js))"
| "json_dump (PDict kvs) = (case json_dump_items kvs of Inl e \<Rightarrow> Inl e | Inr js \<Rightarrow> Inr (JObject js))"
| "json_dump (PClass c) = Inl TypeError"
| "json_dump (PObject n) = Inl TypeError"
| "json_dump_list [] = Inr []"
| "json_dump_list (x # xs) =
     (case json_dump x of
        Inl e \<Rightarrow> Inl e
      | Inr j \<Rightarrow> (case json_dump_list xs of Inl e \<Rightarrow> Inl e | Inr js \<Rightarrow> Inr (j # js)))"
| "json_dump_items [] = Inr []"
| "json_dump_items (kv # kvs) =
     (case json_dump (snd kv) of
        Inl e \<Rightarrow> Inl e
      | Inr j \<Rightarrow> (case json_dump_items kvs of Inl e \<Rightarrow> Inl e | Inr js \<Rightarrow> Inr ((fst kv, j) # js)))"

fun json_load :: "json \<Rightarrow> pyval"
  and json_load_list :: "json list \<Rightarrow> pyval list"
  and json_load_items :: "(string \<times> json) list \<Rightarrow> (string \<times> pyval) list" where
  "json_load JNull = PNone"
| "json_load (JBool b) = PBool b"
| "json_load (JInt i) = PInt i"
| "json_load (JFloat r) = PFloat r"
| "json_load (JString s) = PStr s"
| "json_load (JArray js) = PList (json_load_list js)"
| "json_load (JObject kvs) = PDict (json_load_items kvs)"
| "json_load_list [] = []"
| "json_load_list (j # js) = json_load j # json_load_list js"
| "json_load_items [] = []"
| "json_load_items (kv # kvs) = (fst kv, json_load (snd kv)) # json_load_items kvs"

text \<open>
  Plain data: what JSON holds as it is. \<^verbatim>\<open>None\<close>, booleans, numbers, strings, and lists
  and dicts of plain data.
\<close>

fun json_plain :: "pyval \<Rightarrow> bool"
  and json_plain_list :: "pyval list \<Rightarrow> bool"
  and json_plain_items :: "(string \<times> pyval) list \<Rightarrow> bool" where
  "json_plain PNone = True"
| "json_plain (PBool b) = True"
| "json_plain (PInt i) = True"
| "json_plain (PFloat r) = True"
| "json_plain (PStr s) = True"
| "json_plain (PList xs) = json_plain_list xs"
| "json_plain (PTuple xs) = False"
| "json_plain (PDict kvs) = json_plain_items kvs"
| "json_plain (PClass c) = False"
| "json_plain (PObject n) = False"
| "json_plain_list [] = True"
| "json_plain_list (x # xs) = (json_plain x \<and> json_plain_list xs)"
| "json_plain_items [] = True"
| "json_plain_items (kv # kvs) = (json_plain (snd kv) \<and> json_plain_items kvs)"

section \<open>The file system and the log\<close>

text \<open>
  The environment the params classes act on: the directories and the regular files that
  exist, by path as written (no normalisation of \<^verbatim>\<open>.\<close>, \<^verbatim>\<open>..\<close> or repeated
  slashes), the creation time of each, the JSON document a file holds where it holds one,
  and whether the root logger already has a handler. Permissions are not modelled.
\<close>

record env =
  dirs :: "string set"
  files :: "string set"
  ctime :: "string \<Rightarrow> rat"
  contents :: "string \<Rightarrow> json option"
  root_handlers :: bool

text \<open>\<^verbatim>\<open>os.path.join(a, b)\<close> on POSIX.\<close>

definition path_join :: "string \<Rightarrow> string \<Rightarrow> string" where
  "path_join a b =
     (if b \<noteq> [] \<and> hd b = CHR ''/'' then b
      else if a = [] \<or> last a = CHR ''/'' then a @ b
      else a @ ''/'' @ b)"

text \<open>
  The proper ancestors of a path: every non-empty prefix that ends right before a slash.
\<close>

fun ancestors_from :: "string \<Rightarrow> string \<Rightarrow> string list" where
  "ancestors_from acc [] = []"
| "ancestors_from acc (c # cs) =
     (if c = CHR ''/'' \<and> acc \<noteq> [] then [acc] else []) @ ancestors_from (acc @ [c]) cs"

definition ancestors :: "string \<Rightarrow> string list" where
  "ancestors p = ancestors_from [] p"

definition path_exists :: "env \<Rightarrow> string \<Rightarrow> bool" where
  "path_exists e p = (p \<in> dirs e \<or> p \<in> files e)"

text \<open>
  \<^verbatim>\<open>os.makedirs(path)\<close>: creates the directory and the ancestors it lacks; raises
  \<^verbatim>\<open>OSError\<close> when the path exists already or a regular file is in the way.
\<close>

definition makedirs :: "env \<Rightarrow> string \<Rightarrow> (exc + unit) \<times> env" where
  "makedirs e p =
     (if path_exists e p \<or> (\<exists>a \<in> set (ancestors p). a \<in> files e) then (Inl OSError, e)
      else (Inr (), e\<lparr>dirs := dirs e \<union> set (ancestors p) \<union> {p}\<rparr>))"

text \<open>\<^verbatim>\<open>tf_models.make_dir\<close>: the \<^verbatim>\<open>OSError\<close> is caught and logged.\<close>

definition make_dir :: "env \<Rightarrow> string \<Rightarrow> (exc + unit) \<times> env" where
  "make_dir e path =
     (case makedirs e path of
        (Inl OSError, e') \<Rightarrow> (Inr (), e')
      | (Inl x, e') \<Rightarrow> (Inl x, e')
      | (Inr u, e') \<Rightarrow> (Inr (), e'))"


text \<open>\<^verbatim>\<open>os.path.dirname\<close>: what stands before the last slash.\<close>

fun dirname_from :: "string \<Rightarrow> string \<Rightarrow> string \<Rightarrow> string" where
  "dirname_from best acc [] = best"
| "dirname_from best acc (c # cs) =
     (if c = CHR ''/'' then dirname_from (if acc = [] then ''/'' else acc) (acc @ [c]) cs
      else dirname_from best (acc @ [c]) cs)"

definition dirname :: "string \<Rightarrow> string" where
  "dirname p = dirname_from [] [] p"

text \<open>
  Opening a file for writing creates it; it raises when the directory it is to stand in
  does not exist or the name is a directory. A name without a directory part stands in
  the current directory.
\<close>

definition open_write :: "env \<Rightarrow> string \<Rightarrow> (exc + unit) \<times> env" where
  "open_write e fname =
     (if fname \<in> dirs e \<or> (dirname fname \<noteq> [] \<and> dirname fname \<notin> dirs e) then (Inl OSError, e)
      else (Inr (), e\<lparr>files := files e \<union> {fname}, contents := (contents e)(fname := None)\<rparr>))"

text \<open>
  Opening a file for appending, as the log handler does: the same conditions, and a file
  that exists keeps what it holds.
\<close>

definition open_append :: "env \<Rightarrow> string \<Rightarrow> (exc + unit) \<times> env" where
  "open_append e fname =
     (if fname \<in> dirs e \<or> (dirname fname \<noteq> [] \<and> dirname fname \<notin> dirs e) then (Inl OSError, e)
      else (Inr (), e\<lparr>files := files e \<union> {fname}\<rparr>))"

text \<open>
  \<^verbatim>\<open>logging.basicConfig(filename=...)\<close>: does nothing when the root logger has a handler;
  otherwise it opens the log file at once and installs the handler.
\<close>

definition basicConfig :: "env \<Rightarrow> string \<Rightarrow> (exc + unit) \<times> env" where
  "basicConfig e fname =
     (if root_handlers e then (Inr (), e)
      else (case open_append e fname of
              (Inl x, e') \<Rightarrow> (Inl x, e')
            | (Inr u, e') \<Rightarrow> (Inr (), e'\<lparr>root_handlers := True\<rparr>)))"

section \<open>Parameter objects\<close>

subsection \<open>\<^verbatim>\<open>tf_models.BaseNetworkParams\<close> and its subclasses\<close>

datatype option_class = LayerConfigC | ConvLayerConfigC

record params_class =
  MODEL_SPECIFIC_ATTRIBUTES :: "(string \<times> pyval) list"
  LAYER_PARAM_TYPES :: "(string \<times> option_class) list"




definition DenseAutoencoderParams :: params_class where
  "DenseAutoencoderParams =
     \<lparr> MODEL_SPECIFIC_ATTRIBUTES =
         [(''name'', PStr ''autoenc''), (''in_size'', PInt 10),
          (''encode_nodes'', PList [PInt 5, PInt 5]),
          (''encode_params'', PDict [(''dropout_rate'', PFloat (1 / 10))]),
          (''decode_nodes'', PList [PInt 5, PInt 5]),
          (''decode_params'', PDict [(''dropout_rate'', PNone)]),
          (''bottleneck_dim'', PInt 3),
          (''bottleneck_params'', PDict [(''dropout_rate'', PNone)]),
          (''output_params'',
             PDict [(''dropout_rate'', PNone), (''activation'', PNone), (''act_reg'', PNone)])],
       LAYER_PARAM_TYPES =
         [(''encode_params'', LayerConfigC), (''decode_params'', LayerConfigC),
          (''bottleneck_params'', LayerConfigC), (''output_params'', LayerConfigC)] \<rparr>"

definition ConvolutionalAutoencoderParams :: params_class where
  "ConvolutionalAutoencoderParams =
     \<lparr> MODEL_SPECIFIC_ATTRIBUTES =
         [(''name'', PStr ''conv_autoenc''), (''in_size'', PInt 40),
          (''encode_nodes'', PList [PInt 10]),
          (''encode_params'',
             PDict [(''dropout_rate'', PFloat (1 / 10)), (''kernel'', PInt 5),
                    (''strides'', PInt 1), (''pool_size'', PInt 2)]),
          (''bottleneck_dim'', PInt 3),
          (''bottleneck_params'',
             PDict [(''dropout_rate'', PNone), (''kernel'', PInt 5),
                    (''strides'', PInt 1), (''pool_size'', PInt 1)]),
          (''decode_nodes'', PList [PInt 10]),
          (''decode_params'',
             PDict [(''dropout_rate'', PNone), (''kernel'', PInt 5),
                    (''strides'', PInt 1), (''pool_size'', PInt 2)]),
          (''output_params'',
             PDict [(''dropout_rate'', PNone), (''activation'', PNone), (''act_reg'', PNone),
                    (''kernel'', PInt 1), (''strides'', PInt 1), (''pool_size'', PInt 1)])],
       LAYER_PARAM_TYPES =
         [(''encode_params'', ConvLayerConfigC), (''bottleneck_params'', ConvLayerConfigC),
          (''decode_params'', ConvLayerConfigC), (''output_params'', ConvLayerConfigC)] \<rparr>"





text \<open>
  Modelled from the spec: \<^verbatim>\<open>__dict__\<close> of an option instance, the plain mapping of its
  fields that \<^verbatim>\<open>save()\<close> puts in the instance's place.
\<close>

definition LayerConfig_dict :: "LayerConfig \<Rightarrow> (string \<times> pyval) list" where
  "LayerConfig_dict c =
     [(''activation'', activation c), (''bias'', bias c), (''act_reg'', act_reg c),
      (''batchnorm'', batchnorm c), (''dropout_rate'', dropout_rate c)]"

definition ConvLayerConfig_dict :: "ConvLayerConfig \<Rightarrow> (string \<times> pyval) list" where
  "ConvLayerConfig_dict c =
     [(''activation'', activation c), (''bias'', bias c), (''act_reg'', act_reg c),
      (''batchnorm'', batchnorm c), (''dropout_rate'', dropout_rate c),
      (''kernel'', kernel c), (''strides'', strides c), (''pool_size'', pool_size c)]"

text \<open>
  The loop of \<^verbatim>\<open>save()\<close> over \<^verbatim>\<open>dict_to_dump = vars(self)\<close>: every value whose class
  is a subclass of \<^verbatim>\<open>LayerConfig\<close> is replaced by its \<^verbatim>\<open>__dict__\<close>. The dict is the
  object's own attribute dict, not a copy, so the loop rewrites the attributes.
\<close>

fun to_plain :: "pyobj \<Rightarrow> pyobj" where
  "to_plain (Val v) = Val v"
| "to_plain (LayerConfigObj c) = Val (PDict (LayerConfig_dict c))"
| "to_plain (ConvLayerConfigObj c) = Val (PDict (ConvLayerConfig_dict c))"

definition convert_in_place :: "attrs \<Rightarrow> attrs" where
  "convert_in_place self = map (\<lambda>kv. (fst kv, to_plain (snd kv))) self"

definition vars_dict :: "attrs \<Rightarrow> pyval" where
  "vars_dict self = PDict (map (\<lambda>kv. (fst kv, as_val (snd kv))) self)"

text \<open>
  \<^verbatim>\<open>with open(fname, 'wt') as f: json.dump(obj, f)\<close>: the file is created (or emptied)
  when it is opened; an object the encoder refuses leaves it without a document.
\<close>

definition dump_to_file :: "env \<Rightarrow> string \<Rightarrow> pyval \<Rightarrow> (exc + unit) \<times> env" where
  "dump_to_file e fname obj =
     (case open_write e fname of
        (Inl x, e') \<Rightarrow> (Inl x, e')
      | (Inr u, e') \<Rightarrow>
          (case json_dump obj of
             Inl x \<Rightarrow> (Inl x, e')
           | Inr j \<Rightarrow> (Inr (), e'\<lparr>contents := (contents e')(fname := Some j)\<rparr>)))"

text \<open>
  \<^verbatim>\<open>BaseNetworkParams.save\<close>. It returns the outcome, the params object as the call
  leaves it, and the environment.
\<close>

definition BaseNetworkParams_save :: "env \<Rightarrow> attrs \<Rightarrow> (exc + unit) \<times> attrs \<times> env" where
  "BaseNetworkParams_save e self =
     (case bind_exc (getattr self ''path'') as_str of
        Inl x \<Rightarrow> (Inl x, self, e)
      | Inr path \<Rightarrow>
          (case make_dir e path of
             (Inl x, e1) \<Rightarrow> (Inl x, self, e1)
           | (Inr u, e1) \<Rightarrow>
               (case bind_exc (getattr self ''name'') as_str of
                  Inl x \<Rightarrow> (Inl x, self, e1)
                | Inr name \<Rightarrow>
                    (let params_fname = path_join path (name @ ''-params.json'');
                         dict_to_dump = convert_in_place self
                     in case dump_to_file e1 params_fname (vars_dict dict_to_dump) of
                          (r, e2) \<Rightarrow> (r, dict_to_dump, e2)))))"

subsection \<open>\<^verbatim>\<open>model_wrangler.ModelParams\<close>\<close>

text \<open>
  \<^verbatim>\<open>ModelParams.__init__(kwargs)\<close>: eight attributes read from the mapping, and the
  log file configured under the model's path. No directory is created here.
\<close>

definition ModelParams_init :: "env \<Rightarrow> (string \<times> pyval) list \<Rightarrow> (exc + attrs) \<times> env" where
  "ModelParams_init e kwargs =
     (let verb = dict_get kwargs ''verb'' (PBool True);
          name = dict_get kwargs ''name'' (PStr ''newmodel'')
      in case as_str (Val name) of
           Inl x \<Rightarrow> (Inl x, e)
         | Inr name_s \<Rightarrow>
             (let path = dict_get kwargs ''path'' (PStr (path_join ''.'' name_s))
              in case as_str (Val path) of
                   Inl x \<Rightarrow> (Inl x, e)
                 | Inr path_s \<Rightarrow>
                     (case basicConfig e (path_join path_s (name_s @ ''.log'')) of
                        (Inl x, e1) \<Rightarrow> (Inl x, e1)
                      | (Inr u, e1) \<Rightarrow>
                          (Inr [(''verb'', Val verb), (''name'', Val name), (''path'', Val path),
                                (''in_size'', Val (dict_get kwargs ''in_size'' (PInt 10))),
                                (''out_size'', Val (dict_get kwargs ''out_size'' (PInt 3))),
                                (''max_iter'', Val (dict_get kwargs ''max_iter'' (PInt 500))),
                                (''batch_size'', Val (dict_get kwargs ''batch_size'' (PInt 250))),
                                (''num_epoch'', Val (dict_get kwargs ''num_epoch'' (PInt 2)))],
                           e1))))"


text \<open>
  \<^verbatim>\<open>ModelParams.find_metagraph\<close>. \<^verbatim>\<open>meta_list\<close> is the string
  \<^verbatim>\<open>os.path.join(self.path, '*.meta')\<close>, and \<^verbatim>\<open>max(meta_list, key=os.path.getctime)\<close>
  runs over its characters: \<^verbatim>\<open>getctime\<close> is asked of each character as a path, raises
  \<^verbatim>\<open>OSError\<close> for one that names nothing, and \<^verbatim>\<open>max\<close> keeps the first character
  with the greatest key.
\<close>

definition getctime :: "env \<Rightarrow> string \<Rightarrow> exc + rat" where
  "getctime e p = (if path_exists e p then Inr (ctime e p) else Inl OSError)"

fun max_by_ctime :: "env \<Rightarrow> string \<times> rat \<Rightarrow> string list \<Rightarrow> exc + string" where
  "max_by_ctime e best [] = Inr (fst best)"
| "max_by_ctime e best (x # xs) =
     (case getctime e x of
        Inl err \<Rightarrow> Inl err
      | Inr t \<Rightarrow> max_by_ctime e (if snd best < t then (x, t) else best) xs)"

definition find_metagraph :: "env \<Rightarrow> attrs \<Rightarrow> exc + string" where
  "find_metagraph e self =
     bind_exc (bind_exc (getattr self ''path'') as_str) (\<lambda>path.
       case map (\<lambda>c. [c]) (path_join path ''*.meta'') of
         [] \<Rightarrow> Inl ValueError
       | x # xs \<Rightarrow> (case getctime e x of Inl err \<Rightarrow> Inl err | Inr t \<Rightarrow> max_by_ctime e (x, t) xs))"

section \<open>Networks\<close>

text \<open>
  A network object while \<^verbatim>\<open>BaseNetwork.__init__\<close> runs: an attribute is \<open>None\<close> until
  the constructor has assigned it (\<open>net_input\<close> is \<^verbatim>\<open>self.input\<close>, and so on:
  \<open>input\<close> and \<open>output\<close> are reserved words). \<^verbatim>\<open>train_step\<close> is the momentum optimizer's
  \<^verbatim>\<open>minimize(self.loss)\<close>; the saver keeps the name and file name it was given.
\<close>

datatype train_op = Minimize loss_handle pyval

record network =
  is_training :: tensor
  net_input :: "tensor option"
  net_output :: "tensor option"
  net_target :: "tensor option"
  net_loss :: "loss_handle option"
  train_step :: "train_op option"
  tb_writer :: "pyval option"
  saver :: "(pyval \<times> pyval) option"

text \<open>Reading an attribute of \<^verbatim>\<open>self\<close> that has not been assigned yet.\<close>

definition self_attr :: "string \<Rightarrow> 'a option \<Rightarrow> exc + 'a" where
  "self_attr name v = (case v of None \<Rightarrow> Inl (AttributeError name) | Some x \<Rightarrow> Inr x)"

text \<open>\<^verbatim>\<open>str(idx)\<close> for the layer labels \<^verbatim>\<open>'encode_{}'.format(idx)\<close>.\<close>

definition digit_char :: "nat \<Rightarrow> char" where
  "digit_char d = char_of (48 + d)"

function str_of_nat :: "nat \<Rightarrow> string" where
  "str_of_nat n = (if n < 10 then [digit_char n] else str_of_nat (n div 10) @ [digit_char (n mod 10)])"
  by pat_completeness auto
termination
  by (relation "measure id") auto

text \<open>
  \<^verbatim>\<open>BaseNetwork.setup_layers\<close>. The dense layer is given \<^verbatim>\<open>self.input\<close>, and the loss
  is taken between \<^verbatim>\<open>target_layer\<close> and \<^verbatim>\<open>in_layer\<close>. The layer has the engine's
  defaults: no activation, a bias, no regularizer.
\<close>

definition BaseNetwork_setup_layers ::
  "network \<Rightarrow> attrs \<Rightarrow> exc + tensor \<times> tensor \<times> tensor \<times> loss_handle" where
  "BaseNetwork_setup_layers self params =
     bind_exc (getattr_val params ''in_size'') (\<lambda>in_size.
     let in_layer = Placeholder ''float'' ''input'' (Some [PNone, in_size]) in
     bind_exc (self_attr ''input'' (net_input self)) (\<lambda>self_input.
     bind_exc (getattr_val params ''out_size'') (\<lambda>out_size.
     let out_layer = Dense self_input out_size PNone (PBool True) PNone ''output'' in
     bind_exc (getattr_val params ''out_size'') (\<lambda>out_size'.
     let target_layer = Placeholder ''float'' ''target'' (Some [PNone, out_size']);
         loss = LossSigmoidCE target_layer in_layer
     in Inr (in_layer, out_layer, target_layer, loss)))))"

text \<open>
  The loops \<^verbatim>\<open>for idx, num_nodes in enumerate(nodes): layers.append(make(layers[-1],
  num_nodes, label.format(idx), params.stage_params))\<close>. The option attribute is read
  anew in every round.
\<close>

fun build_layers ::
  "(tensor \<Rightarrow> pyval \<Rightarrow> string \<Rightarrow> pyobj \<Rightarrow> exc + tensor) \<Rightarrow> attrs \<Rightarrow> string \<Rightarrow> string
     \<Rightarrow> nat \<Rightarrow> tensor list \<Rightarrow> pyval list \<Rightarrow> exc + tensor list" where
  "build_layers mk params stage_params label idx layers [] = Inr layers"
| "build_layers mk params stage_params label idx layers (num_nodes # rest) =
     bind_exc (getattr params stage_params) (\<lambda>cfg.
     bind_exc (mk (last layers) num_nodes (label @ str_of_nat idx) cfg) (\<lambda>l.
     build_layers mk params stage_params label (Suc idx) (layers @ [l]) rest))"

text \<open>
  \<^verbatim>\<open>DenseAutoencoderModel.setup_layers\<close>. \<^verbatim>\<open>tops.fit_to_shape\<close> and
  \<^verbatim>\<open>tops.loss_mse\<close> are operations of \<^verbatim>\<open>tf_ops.py\<close> and are graph nodes here.
\<close>

definition DenseAutoencoderModel_setup_layers ::
  "LayerConfig \<Rightarrow> network \<Rightarrow> attrs \<Rightarrow> exc + tensor \<times> tensor \<times> tensor \<times> loss_handle" where
  "DenseAutoencoderModel_setup_layers dl self params =
     bind_exc (getattr_val params ''in_size'') (\<lambda>in_size.
     bind_exc (bind_exc (getattr_val params ''encode_nodes'') iterate) (\<lambda>encode_nodes.
     bind_exc (build_layers (make_dense_layer dl (is_training self)) params ''encode_params''
                 ''encode_'' 0 [Placeholder ''float'' ''input'' (Some [PNone, in_size])] encode_nodes)
       (\<lambda>encode_layers.
     bind_exc (getattr_val params ''bottleneck_dim'') (\<lambda>bottleneck_dim.
     bind_exc (getattr params ''bottleneck_params'') (\<lambda>bottleneck_params.
     bind_exc (make_dense_layer dl (is_training self) (last encode_layers) bottleneck_dim
                 ''bottleneck'' bottleneck_params) (\<lambda>bottleneck.
     bind_exc (bind_exc (getattr_val params ''decode_nodes'') iterate) (\<lambda>decode_nodes.
     bind_exc (build_layers (make_dense_layer dl (is_training self)) params ''decode_params''
                 ''decode_'' 0 [bottleneck] decode_nodes) (\<lambda>decode_layers.
     let in_layer = hd encode_layers;
         target_layer = Placeholder ''float'' ''target'' (get_shape in_layer) in
     bind_exc (getattr_val params ''in_size'') (\<lambda>in_size'.
     bind_exc (getattr params ''output_params'') (\<lambda>output_params.
     bind_exc (make_dense_layer dl (is_training self) (last decode_layers) in_size'
                 ''output_layer'' output_params) (\<lambda>output_layer.
     let out_layer = FitToShape output_layer (get_shape target_layer);
         loss = LossMSE target_layer out_layer
     in Inr (in_layer, out_layer, target_layer, loss))))))))))))"

text \<open>
  \<^verbatim>\<open>ConvolutionalAutoencoderModel.setup_layers\<close>: the input shape is
  \<^verbatim>\<open>[None] + in_size\<close> for a list or tuple and \<^verbatim>\<open>[None, in_size, 1]\<close> otherwise.
\<close>

fun in_shape :: "pyval \<Rightarrow> pyval list" where
  "in_shape (PList xs) = PNone # xs"
| "in_shape (PTuple xs) = PNone # xs"
| "in_shape v = [PNone, v, PInt 1]"

definition ConvolutionalAutoencoderModel_setup_layers ::
  "ConvLayerConfig \<Rightarrow> network \<Rightarrow> attrs \<Rightarrow> exc + tensor \<times> tensor \<times> tensor \<times> loss_handle" where
  "ConvolutionalAutoencoderModel_setup_layers dc self params =
     bind_exc (getattr_val params ''in_size'') (\<lambda>in_size.
     bind_exc (bind_exc (getattr_val params ''encode_nodes'') iterate) (\<lambda>encode_nodes.
     bind_exc (build_layers (make_conv_layer dc (is_training self)) params ''encode_params''
                 ''encode_'' 0 [Placeholder ''float'' ''input'' (Some (in_shape in_size))] encode_nodes)
       (\<lambda>encode_layers.
     bind_exc (getattr_val params ''bottleneck_dim'') (\<lambda>bottleneck_dim.
     bind_exc (getattr params ''bottleneck_params'') (\<lambda>bottleneck_params.
     bind_exc (make_conv_layer dc (is_training self) (last encode_layers) bottleneck_dim
                 ''bottleneck'' bottleneck_params) (\<lambda>bottleneck.
     bind_exc (bind_exc (getattr_val params ''decode_nodes'') iterate) (\<lambda>decode_nodes.
     bind_exc (build_layers (make_deconv_layer dc (is_training self)) params ''decode_params''
                 ''decode_'' 0 [bottleneck] decode_nodes) (\<lambda>decode_layers.
     let in_layer = hd encode_layers;
         target_layer = Placeholder ''float'' ''target'' (get_shape in_layer) in
     bind_exc (getattr params ''output_params'') (\<lambda>output_params.
     bind_exc (make_deconv_layer dc (is_training self) (last decode_layers) (PInt 1)
                 ''output_layer'' output_params) (\<lambda>output_layer.
     let out_layer = FitToShape output_layer (get_shape target_layer);
         loss = LossMSE target_layer out_layer
     in Inr (in_layer, out_layer, target_layer, loss)))))))))))"

text \<open>
  \<^verbatim>\<open>BaseNetwork.__init__(self, params)\<close> for the network class \<open>cls\<close>: the method
  \<^verbatim>\<open>setup_layers\<close> is the one the class defines. When it is called, \<^verbatim>\<open>self\<close> has
  the attributes \<^verbatim>\<open>graph\<close> and \<^verbatim>\<open>is_training\<close> and no other.
\<close>

fun setup_layers ::
  "model_class \<Rightarrow> LayerConfig \<Rightarrow> ConvLayerConfig \<Rightarrow> network \<Rightarrow> attrs
     \<Rightarrow> exc + tensor \<times> tensor \<times> tensor \<times> loss_handle" where
  "setup_layers BaseNetworkC dl dc self params = BaseNetwork_setup_layers self params"
| "setup_layers DenseAutoencoderModelC dl dc self params =
     DenseAutoencoderModel_setup_layers dl self params"
| "setup_layers ConvolutionalAutoencoderModelC dl dc self params =
     ConvolutionalAutoencoderModel_setup_layers dc self params"

definition BaseNetwork_init ::
  "model_class \<Rightarrow> LayerConfig \<Rightarrow> ConvLayerConfig \<Rightarrow> attrs \<Rightarrow> exc + network" where
  "BaseNetwork_init cls dl dc params =
     (let self0 = \<lparr> is_training = Placeholder ''bool'' ''is_training'' None,
                     net_input = None, net_output = None, net_target = None, net_loss = None,
                     train_step = None, tb_writer = None, saver = None \<rparr>
      in bind_exc (setup_layers cls dl dc self0 params) (\<lambda>(i, out, t, l).
         let self1 = self0\<lparr>net_input := Some i, net_output := Some out, net_target := Some t,
                            net_loss := Some l\<rparr> in
         bind_exc (getattr_val params ''learning_rate'') (\<lambda>learning_rate.
         bind_exc (self_attr ''loss'' (net_loss self1)) (\<lambda>self_loss.
         let self2 = self1\<lparr>train_step := Some (Minimize self_loss learning_rate)\<rparr> in
         bind_exc (getattr_val params ''tb_log_path'') (\<lambda>tb_log_path.
         let self3 = self2\<lparr>tb_writer := Some tb_log_path\<rparr> in
         bind_exc (getattr_val params ''name'') (\<lambda>name.
         bind_exc (getattr_val params ''meta_filename'') (\<lambda>meta_filename.
         Inr (self3\<lparr>saver := Some (name, meta_filename)\<rparr>))))))))"

section \<open>The wrangler\<close>

record wrangler =
  params :: attrs
  tf_mod :: network

text \<open>
  The wrangler is the class \<^verbatim>\<open>ModelWrangler\<close> of \<^verbatim>\<open>model_wrangler.py\<close>, the only one
  among the sources. Its default network \<^verbatim>\<open>BaseNetwork\<close> is read as the class of that
  name in \<^verbatim>\<open>tf_models.py\<close>, and the \<^verbatim>\<open>ModelWrangler\<close> the facades of
  \<^verbatim>\<open>corral/\<close> extend as this wrangler.
\<close>

text \<open>
  \<^verbatim>\<open>ModelWrangler.__init__(self, model_type=BaseNetwork, **kwargs)\<close>, called with the
  keyword arguments \<open>kw\<close>: the keyword \<^verbatim>\<open>model_type\<close> binds the parameter, every other
  keyword goes to \<^verbatim>\<open>kwargs\<close>. Then \<^verbatim>\<open>ModelParams(kwargs)\<close> and
  \<^verbatim>\<open>model_type(self.params)\<close>.
\<close>

definition ModelWrangler_init ::
  "LayerConfig \<Rightarrow> ConvLayerConfig \<Rightarrow> env \<Rightarrow> (string \<times> pyval) list \<Rightarrow> (exc + wrangler) \<times> env" where
  "ModelWrangler_init dl dc e kw =
     (let model_type = dict_get kw ''model_type'' (PClass BaseNetworkC);
          kwargs = filter (\<lambda>kv. fst kv \<noteq> ''model_type'') kw
      in case ModelParams_init e kwargs of
           (Inl x, e1) \<Rightarrow> (Inl x, e1)
         | (Inr p, e1) \<Rightarrow>
             (case model_type of
                PClass cls \<Rightarrow>
                  (case BaseNetwork_init cls dl dc p of
                     Inl x \<Rightarrow> (Inl x, e1)
                   | Inr n \<Rightarrow> (Inr \<lparr> params = p, tf_mod = n \<rparr>, e1))
              | _ \<Rightarrow> (Inl TypeError, e1)))"

text \<open>
  The facades of \<^verbatim>\<open>corral/\<close>: \<^verbatim>\<open>__init__(self, in_size=10, **kwargs)\<close> calls
  \<^verbatim>\<open>super().__init__(model_class=..., in_size=in_size, **kwargs)\<close>. A keyword given
  twice is a \<^verbatim>\<open>TypeError\<close>.
\<close>

definition facade_init ::
  "model_class \<Rightarrow> LayerConfig \<Rightarrow> ConvLayerConfig \<Rightarrow> env \<Rightarrow> (string \<times> pyval) list
     \<Rightarrow> (exc + wrangler) \<times> env" where
  "facade_init model dl dc e kw =
     (let in_size = dict_get kw ''in_size'' (PInt 10);
          kwargs = filter (\<lambda>kv. fst kv \<noteq> ''in_size'') kw
      in if ''model_class'' \<in> fst ` set kwargs then (Inl TypeError, e)
         else ModelWrangler_init dl dc e
                ((''model_class'', PClass model) # (''in_size'', in_size) # kwargs))"

definition DenseAutoencoder_init ::
  "LayerConfig \<Rightarrow> ConvLayerConfig \<Rightarrow> env \<Rightarrow> (string \<times> pyval) list \<Rightarrow> (exc + wrangler) \<times> env" where
  "DenseAutoencoder_init = facade_init DenseAutoencoderModelC"

definition ConvolutionalAutoencoder_init ::
  "LayerConfig \<Rightarrow> ConvLayerConfig \<Rightarrow> env \<Rightarrow> (string \<times> pyval) list \<Rightarrow> (exc + wrangler) \<times> env" where
  "ConvolutionalAutoencoder_init = facade_init ConvolutionalAutoencoderModelC"

text \<open>
  \<^verbatim>\<open>ModelWrangler.load(cls, param_file)\<close>, a class method: \<open>cls\<close> is the wrangler
  class it is called on. The engine's \<^verbatim>\<open>tf.train.latest_checkpoint\<close> is the parameter
  \<open>latest_checkpoint\<close>; restoring from no checkpoint is the engine's error.
\<close>

datatype wrangler_class = ModelWranglerC | DenseAutoencoderC | ConvolutionalAutoencoderC

fun construct ::
  "wrangler_class \<Rightarrow> LayerConfig \<Rightarrow> ConvLayerConfig \<Rightarrow> env \<Rightarrow> (string \<times> pyval) list
     \<Rightarrow> (exc + wrangler) \<times> env" where
  "construct ModelWranglerC = ModelWrangler_init"
| "construct DenseAutoencoderC = DenseAutoencoder_init"
| "construct ConvolutionalAutoencoderC = ConvolutionalAutoencoder_init"

record restored =
  new_model :: wrangler
  meta_file :: string
  last_checkpoint :: string

definition read_json :: "env \<Rightarrow> string \<Rightarrow> exc + pyval" where
  "read_json e fname =
     (if fname \<notin> files e then Inl OSError
      else case contents e fname of None \<Rightarrow> Inl ValueError | Some j \<Rightarrow> Inr (json_load j))"

definition ModelWrangler_load ::
  "wrangler_class \<Rightarrow> LayerConfig \<Rightarrow> ConvLayerConfig \<Rightarrow> (string \<Rightarrow> string option) \<Rightarrow> env \<Rightarrow> string
     \<Rightarrow> (exc + restored) \<times> env" where
  "ModelWrangler_load cls dl dc latest_checkpoint e param_file =
     (case read_json e param_file of
        Inl x \<Rightarrow> (Inl x, e)
      | Inr (PDict kw) \<Rightarrow>
          (case construct cls dl dc e kw of
             (Inl x, e1) \<Rightarrow> (Inl x, e1)
           | (Inr m, e1) \<Rightarrow>
               (bind_exc (find_metagraph e1 (params m)) (\<lambda>meta.
                bind_exc (bind_exc (getattr (params m) ''path'') as_str) (\<lambda>path.
                case latest_checkpoint path of
                  None \<Rightarrow> Inl ValueError
                | Some ckpt \<Rightarrow> Inr \<lparr> new_model = m, meta_file = meta, last_checkpoint = ckpt \<rparr>)),
                e1))
      | Inr v \<Rightarrow> (Inl TypeError, e))"

section \<open>Training\<close>

text \<open>
  The tensor engine, the dataset provider, the log and the console are external: a call
  on one of them is an event of the run, in the order the calls are made. \<open>'a\<close> is the
  type of the arrays, \<open>'c\<close> that of the list of positive classes. A feed is the array pair
  and the value given to \<^verbatim>\<open>is_training\<close>.
\<close>

datatype ('a, 'c) event =
    MakeDataset 'a 'a bool rat
  | SessionOpen
  | SessionClose
  | LogStartingEpoch nat
  | BalancedBatches 'c pyval
  | GetHoldoutSamples
  | RunTrainStep "'a \<times> 'a" bool
  | LogBatchNumber nat
  | EvalLoss "'a \<times> 'a" bool
  | LogTrainingScore
  | ParamsSave
  | LogSavingWeights
  | SaverSave pyval nat
  | Print string

text \<open>
  Modelled from the spec: the dataset provider (\<^verbatim>\<open>dataset_managers.py\<close> is not among
  the sources): it yields, on each call, a finite sequence of class-balanced batches for
  the given positive classes and batch size, and exposes one fixed holdout pair. The
  first argument of \<open>balanced_batches\<close> counts the calls made before, since a provider
  may sample anew each time.
\<close>

record ('a, 'c) dataset =
  balanced_batches :: "nat \<Rightarrow> 'c \<Rightarrow> pyval \<Rightarrow> ('a \<times> 'a) list"
  get_holdout_samples :: "'a \<times> 'a"

text \<open>
  The state of a run: the events so far, and the exception the environment will raise,
  if any: \<open>pending = Some (k, x)\<close> says that \<open>k\<close> more calls complete and the next one
  raises \<open>x\<close> instead (a user's interrupt is \<open>x = KeyboardInterrupt\<close>; an engine or
  file-system failure is any other \<open>x\<close>).
\<close>

record ('a, 'c) run_state =
  trace :: "('a, 'c) event list"
  pending :: "(nat \<times> exc) option"

type_synonym ('a, 'c) step = "('a, 'c) run_state \<Rightarrow> (exc + unit) \<times> ('a, 'c) run_state"

definition effect :: "('a, 'c) event \<Rightarrow> ('a, 'c) step" where
  "effect ev s =
     (case pending s of
        None \<Rightarrow> (Inr (), s\<lparr>trace := trace s @ [ev]\<rparr>)
      | Some (0, x) \<Rightarrow> (Inl x, s\<lparr>pending := None\<rparr>)
      | Some (Suc k, x) \<Rightarrow> (Inr (), s\<lparr>trace := trace s @ [ev], pending := Some (k, x)\<rparr>))"

definition seq :: "('a, 'c) step \<Rightarrow> ('a, 'c) step \<Rightarrow> ('a, 'c) step" where
  "seq f g s = (case f s of (Inl x, s') \<Rightarrow> (Inl x, s') | (Inr u, s') \<Rightarrow> g s')"

definition raise :: "exc \<Rightarrow> ('a, 'c) step" where
  "raise x s = (Inl x, s)"

text \<open>
  \<^verbatim>\<open>with tf.Session(graph=...) as sess: body\<close>: the session is closed when the block is
  left, by its end or by an exception.
\<close>

definition with_session :: "('a, 'c) step \<Rightarrow> ('a, 'c) step" where
  "with_session body s =
     (case effect SessionOpen s of
        (Inl x, s1) \<Rightarrow> (Inl x, s1)
      | (Inr u, s1) \<Rightarrow> (case body s1 of (r, s2) \<Rightarrow> (r, s2\<lparr>trace := trace s2 @ [SessionClose]\<rparr>)))"

text \<open>\<^verbatim>\<open>ModelWrangler.score\<close> with the default \<^verbatim>\<open>score_func\<close>, the model's loss.\<close>

definition score :: "'a \<times> 'a \<Rightarrow> ('a, 'c) step" where
  "score xy = with_session (effect (EvalLoss xy False))"

text \<open>The loop of \<^verbatim>\<open>_run_epoch\<close> over the batch iterator; \<open>batch_counter\<close> is its counter.\<close>

fun run_batches :: "'a \<times> 'a \<Rightarrow> nat \<Rightarrow> ('a \<times> 'a) list \<Rightarrow> ('a, 'c) step" where
  "run_batches holdout batch_counter [] = (\<lambda>s. (Inr (), s))"
| "run_batches holdout batch_counter (b # bs) =
     seq (effect (RunTrainStep b True))
       (seq (if (batch_counter + 1) mod 100 = 0
             then seq (effect (LogBatchNumber (batch_counter + 1)))
                    (seq (score holdout) (effect LogTrainingScore))
             else (\<lambda>s. (Inr (), s)))
          (run_batches holdout (batch_counter + 1) bs))"

definition run_epoch :: "attrs \<Rightarrow> ('a, 'c) dataset \<Rightarrow> nat \<Rightarrow> 'c \<Rightarrow> ('a, 'c) step" where
  "run_epoch self_params dataset call pos_classes =
     (case getattr_val self_params ''batch_size'' of
        Inl x \<Rightarrow> raise x
      | Inr batch_size \<Rightarrow>
          seq (effect (BalancedBatches pos_classes batch_size))
            (seq (effect GetHoldoutSamples)
               (run_batches (get_holdout_samples dataset) 0
                  (balanced_batches dataset call pos_classes batch_size))))"

text \<open>\<^verbatim>\<open>ModelWrangler.save(iteration)\<close>: the params file, then the weights.\<close>

definition save :: "attrs \<Rightarrow> nat \<Rightarrow> ('a, 'c) step" where
  "save self_params iteration =
     seq (effect ParamsSave)
       (case getattr_val self_params ''path'' of
          Inl x \<Rightarrow> raise x
        | Inr path \<Rightarrow>
            seq (effect LogSavingWeights) (with_session (effect (SaverSave path iteration))))"

text \<open>\<^verbatim>\<open>range(n)\<close>; \<^verbatim>\<open>bool\<close> counts as an int, anything else is a \<^verbatim>\<open>TypeError\<close>.\<close>

fun py_range :: "pyval \<Rightarrow> exc + nat list" where
  "py_range (PInt n) = Inr [0..<nat n]"
| "py_range (PBool b) = Inr [0..<(if b then 1 else 0)]"
| "py_range v = Inl TypeError"

fun run_epochs :: "attrs \<Rightarrow> ('a, 'c) dataset \<Rightarrow> 'c \<Rightarrow> nat list \<Rightarrow> ('a, 'c) step" where
  "run_epochs self_params dataset pos_classes [] = (\<lambda>s. (Inr (), s))"
| "run_epochs self_params dataset pos_classes (epoch # rest) =
     seq (effect (LogStartingEpoch epoch))
       (seq (run_epoch self_params dataset epoch pos_classes)
          (seq (save self_params epoch)
             (run_epochs self_params dataset pos_classes rest)))"

text \<open>
  \<^verbatim>\<open>ModelWrangler.train\<close>. The provider is built before the \<^verbatim>\<open>try\<close>; the session
  and the epoch loop are inside it; the handler prints and returns.
\<close>

definition train_body :: "attrs \<Rightarrow> ('a, 'c) dataset \<Rightarrow> 'c \<Rightarrow> ('a, 'c) step" where
  "train_body self_params dataset pos_classes =
     with_session
       (case bind_exc (getattr_val self_params ''num_epoch'') py_range of
          Inl x \<Rightarrow> raise x
        | Inr epochs \<Rightarrow> run_epochs self_params dataset pos_classes epochs)"

definition train ::
  "('a \<Rightarrow> 'a \<Rightarrow> bool \<Rightarrow> rat \<Rightarrow> ('a, 'c) dataset) \<Rightarrow> wrangler \<Rightarrow> 'a \<Rightarrow> 'a \<Rightarrow> 'c \<Rightarrow> ('a, 'c) step" where
  "train DatasetManager self input_x target_y pos_classes s =
     (case effect (MakeDataset input_x target_y True (1 / 10)) s of
        (Inl x, s1) \<Rightarrow> (Inl x, s1)
      | (Inr u, s1) \<Rightarrow>
          (case train_body (params self) (DatasetManager input_x target_y True (1 / 10))
                  pos_classes s1 of
             (Inl KeyboardInterrupt, s2) \<Rightarrow> effect (Print ''Force-exiting training.'') s2
           | (r, s2) \<Rightarrow> (r, s2)))"

section \<open>Feature importance\<close>

text \<open>
  A two-dimensional array is its number of columns and its rows. The numbers are exact:
  the rounding and the overflow of doubles are not modelled, and \<open>NaN\<close> stands only
  for what \<^verbatim>\<open>np.mean\<close> returns over an empty axis.
\<close>

record array2 =
  ncols :: nat
  rows :: "rat list list"

datatype npfloat = Finite rat | NaN

definition wf_array :: "array2 \<Rightarrow> bool" where
  "wf_array a = list_all (\<lambda>r. length r = ncols a) (rows a)"

text \<open>\<^verbatim>\<open>grad ** 2\<close>, element by element.\<close>

definition squared :: "array2 \<Rightarrow> array2" where
  "squared a = a\<lparr>rows := map (map (\<lambda>x. x * x)) (rows a)\<rparr>"

definition np_mean :: "rat list \<Rightarrow> npfloat" where
  "np_mean xs = (if xs = [] then NaN else Finite (sum_list xs / of_nat (length xs)))"

text \<open>
  \<^verbatim>\<open>np.mean(a, axis=0, keepdims=True)\<close>: the mean of every column, in an array that
  keeps the averaged axis with length one. The result is given by its rows.
\<close>

definition np_mean_axis0_keepdims :: "array2 \<Rightarrow> npfloat list list" where
  "np_mean_axis0_keepdims a = [map (\<lambda>j. np_mean (map (\<lambda>r. r ! j) (rows a))) [0..<ncols a]]"

text \<open>
  \<^verbatim>\<open>ModelWrangler.feature_importance\<close> with the default \<^verbatim>\<open>score_func\<close>. The engine
  evaluates the gradient of the loss with respect to the input at the feed
  \<^verbatim>\<open>{input: input_x, target: target_y, is_training: False}\<close>: the parameter
  \<open>grad_wrt_input\<close>, an array of the shape of \<^verbatim>\<open>input_x\<close>.
\<close>

definition feature_importance ::
  "('a \<times> 'a \<Rightarrow> bool \<Rightarrow> array2) \<Rightarrow> 'a \<Rightarrow> 'a \<Rightarrow> npfloat list list" where
  "feature_importance grad_wrt_input input_x target_y =
     (let grad_wrt_input_vals = grad_wrt_input (input_x, target_y) False;
          importance = np_mean_axis0_keepdims (squared grad_wrt_input_vals)
      in importance)"

fun nonneg :: "npfloat \<Rightarrow> bool" where
  "nonneg (Finite x) = (0 \<le> x)"
| "nonneg NaN = False"

section \<open>Vocabulary of the properties\<close>


subsection \<open>Reading a graph\<close>

text \<open>
  The handles from the placeholder a handle rests on up to the handle itself, the number
  of units of a transform, and the stages of one dense layer with the options \<open>c\<close>.
\<close>

fun layers_from :: "tensor \<Rightarrow> tensor list" where
  "layers_from (Placeholder d n s) = [Placeholder d n s]"
| "layers_from (Dense t u a b r n) = layers_from t @ [Dense t u a b r n]"
| "layers_from (ConvLayer t u k s n) = layers_from t @ [ConvLayer t u k s n]"
| "layers_from (DeconvLayer t u k s n) = layers_from t @ [DeconvLayer t u k s n]"
| "layers_from (BatchNormalization t f n) = layers_from t @ [BatchNormalization t f n]"
| "layers_from (MaxPooling t p n) = layers_from t @ [MaxPooling t p n]"
| "layers_from (UnpoolLayer t p n) = layers_from t @ [UnpoolLayer t p n]"
| "layers_from (UnstrideLayer t s n) = layers_from t @ [UnstrideLayer t s n]"
| "layers_from (DropoutLayer t r f n) = layers_from t @ [DropoutLayer t r f n]"
| "layers_from (FitToShape t s) = layers_from t @ [FitToShape t s]"

fun units_of :: "tensor \<Rightarrow> pyval list" where
  "units_of (Dense t u a b r n) = [u]"
| "units_of (ConvLayer t u k s n) = [u]"
| "units_of (DeconvLayer t u k s n) = [u]"
| "units_of t = []"

abbreviation dense_stages :: "'a LayerConfig_scheme \<Rightarrow> stage list" where
  "dense_stages c \<equiv>
     Transform # opt_stage (batchnorm c) Batchnorm @ opt_stage (dropout_rate c) Dropout"

subsection \<open>What a value is after a round trip through JSON\<close>

text \<open>
  The same value with every tuple in it turned into a list.
\<close>

fun listify :: "pyval \<Rightarrow> pyval"
  and listify_list :: "pyval list \<Rightarrow> pyval list"
  and listify_items :: "(string \<times> pyval) list \<Rightarrow> (string \<times> pyval) list" where
  "listify (PList xs) = PList (listify_list xs)"
| "listify (PTuple xs) = PList (listify_list xs)"
| "listify (PDict kvs) = PDict (listify_items kvs)"
| "listify PNone = PNone"
| "listify (PBool b) = PBool b"
| "listify (PInt i) = PInt i"
| "listify (PFloat r) = PFloat r"
| "listify (PStr s) = PStr s"
| "listify (PClass c) = PClass c"
| "listify (PObject n) = PObject n"
| "listify_list [] = []"
| "listify_list (x # xs) = listify x # listify_list xs"
| "listify_items [] = []"
| "listify_items (kv # kvs) = (fst kv, listify (snd kv)) # listify_items kvs"

subsection \<open>Example objects\<close>


definition demo_env :: env where
  "demo_env = \<lparr> dirs = {''.'', ''/'', ''m''}, files = {}, ctime = (\<lambda>p. 0),
                 contents = (\<lambda>p. None), root_handlers = False \<rparr>"

definition demo_config :: LayerConfig where
  "demo_config = \<lparr> activation = PStr ''relu'', bias = PBool True, act_reg = PNone,
                    batchnorm = PBool True, dropout_rate = PFloat (1 / 10) \<rparr>"


definition demo_params :: attrs where
  "demo_params =
     [(''batch_size'', Val (PInt 256)), (''num_epochs'', Val (PInt 3)),
      (''name'', Val (PStr ''autoenc'')), (''encode_nodes'', Val (PList [PInt 5, PInt 5])),
      (''path'', Val (PStr ''m'')), (''encode_params'', LayerConfigObj demo_config)]"

text \<open>A params object with a tuple among its attributes.\<close>

definition demo_conv_params :: attrs where
  "demo_conv_params =
     [(''name'', Val (PStr ''conv_autoenc'')), (''path'', Val (PStr ''m'')),
      (''in_size'', Val (PTuple [PInt 28, PInt 28])), (''batch_size'', Val (PInt 256))]"

definition demo_network :: network where
  "demo_network =
     \<lparr> is_training = Placeholder ''bool'' ''is_training'' None,
       net_input = Some (Placeholder ''float'' ''input'' (Some [PNone, PInt 10])),
       net_output = Some (Dense (Placeholder ''float'' ''input'' (Some [PNone, PInt 10]))
                            (PInt 3) PNone (PBool True) PNone ''output''),
       net_target = Some (Placeholder ''float'' ''target'' (Some [PNone, PInt 3])),
       net_loss = Some (LossSigmoidCE (Placeholder ''float'' ''target'' (Some [PNone, PInt 3]))
                          (Dense (Placeholder ''float'' ''input'' (Some [PNone, PInt 10]))
                             (PInt 3) PNone (PBool True) PNone ''output'')),
       train_step =
         Some (Minimize
                 (LossSigmoidCE (Placeholder ''float'' ''target'' (Some [PNone, PInt 3]))
                    (Dense (Placeholder ''float'' ''input'' (Some [PNone, PInt 10]))
                       (PInt 3) PNone (PBool True) PNone ''output''))
                 (PFloat (1 / 10000))),
       tb_writer = Some (PStr ''m/tb_log''),
       saver = Some (PStr ''newmodel'', PStr ''m/saver-meta'') \<rparr>"

text \<open>
  A wrangler whose params hold what \<^verbatim>\<open>ModelParams\<close> holds, for two epochs, and a
  provider that yields one batch per epoch.
\<close>

definition demo_wrangler :: wrangler where
  "demo_wrangler =
     \<lparr> params =
         [(''verb'', Val (PBool True)), (''name'', Val (PStr ''newmodel'')),
          (''path'', Val (PStr ''m'')), (''in_size'', Val (PInt 10)),
          (''out_size'', Val (PInt 3)), (''max_iter'', Val (PInt 500)),
          (''batch_size'', Val (PInt 250)), (''num_epoch'', Val (PInt 2))],
       tf_mod = demo_network \<rparr>"

definition demo_DatasetManager :: "unit \<Rightarrow> unit \<Rightarrow> bool \<Rightarrow> rat \<Rightarrow> (unit, unit) dataset" where
  "demo_DatasetManager x y categorical holdout_prop =
     \<lparr> balanced_batches = (\<lambda>call pos batch_size. [(x, y)]), get_holdout_samples = (x, y) \<rparr>"

subsection \<open>The events of a run\<close>

text \<open>
  The calls of a run are its events but for the closing of a session, which happens on
  leaving a \<^verbatim>\<open>with\<close> block, also when an exception passes through it, and is not
  itself a call that the pending exception can replace.
\<close>

fun is_call :: "('a, 'c) event \<Rightarrow> bool" where
  "is_call SessionClose = False"
| "is_call ev = True"

abbreviation calls :: "('a, 'c) event list \<Rightarrow> ('a, 'c) event list" where
  "calls T \<equiv> filter is_call T"

text \<open>
  A step \<open>f\<close> behaves as the event list \<open>T\<close> when: undisturbed, it returns and adds
  \<open>T\<close> to the trace; with an exception pending after \<open>k\<close> calls, it raises that exception
  after the first \<open>k\<close> calls of \<open>T\<close> if \<open>T\<close> has more than \<open>k\<close>, and otherwise returns,
  adds \<open>T\<close> and leaves the exception pending for later.
\<close>

definition behaves :: "('a, 'c) step \<Rightarrow> ('a, 'c) event list \<Rightarrow> bool" where
  "behaves f T =
     (\<forall>s. case pending s of
            None \<Rightarrow> f s = (Inr (), s\<lparr>trace := trace s @ T\<rparr>)
          | Some (k, x) \<Rightarrow>
              if k < length (calls T)
              then fst (f s) = Inl x \<and> pending (snd (f s)) = None
                   \<and> calls (trace (snd (f s))) = calls (trace s) @ take k (calls T)
              else f s = (Inr (), s\<lparr>trace := trace s @ T,
                                     pending := Some (k - length (calls T), x)\<rparr>))"

text \<open>
  The events of the parts of an undisturbed training run, written out: a holdout
  evaluation; one batch, with the evaluation after it when it is the hundredth, two
  hundredth, ... of its epoch (\<open>fst ib\<close> is the number of batches before it); one epoch
  with its checkpoint; the body of the \<^verbatim>\<open>try\<close> block.
\<close>

abbreviation evaluation_events :: "'a \<times> 'a \<Rightarrow> ('a, 'c) event list" where
  "evaluation_events holdout \<equiv> [SessionOpen, EvalLoss holdout False, SessionClose]"

abbreviation batch_events :: "'a \<times> 'a \<Rightarrow> nat \<times> ('a \<times> 'a) \<Rightarrow> ('a, 'c) event list" where
  "batch_events holdout ib \<equiv>
     RunTrainStep (snd ib) True #
       (if (fst ib + 1) mod 100 = 0
        then LogBatchNumber (fst ib + 1) # evaluation_events holdout @ [LogTrainingScore]
        else [])"

abbreviation epoch_events ::
  "('a, 'c) dataset \<Rightarrow> 'c \<Rightarrow> pyval \<Rightarrow> pyval \<Rightarrow> nat \<Rightarrow> ('a, 'c) event list" where
  "epoch_events dataset pos_classes batch_size path epoch \<equiv>
     [LogStartingEpoch epoch, BalancedBatches pos_classes batch_size, GetHoldoutSamples]
     @ concat (map (batch_events (get_holdout_samples dataset))
                 (enumerate 0 (balanced_batches dataset epoch pos_classes batch_size)))
     @ [ParamsSave, LogSavingWeights, SessionOpen, SaverSave path epoch, SessionClose]"

abbreviation body_events ::
  "('a, 'c) dataset \<Rightarrow> 'c \<Rightarrow> pyval \<Rightarrow> pyval \<Rightarrow> nat list \<Rightarrow> ('a, 'c) event list" where
  "body_events dataset pos_classes batch_size path epochs \<equiv>
     SessionOpen # concat (map (epoch_events dataset pos_classes batch_size path) epochs)
       @ [SessionClose]"

section \<open>Properties of the layer builders\<close>

lemma getattr_Nil: "getattr [] k = Inl (AttributeError k)"
  by (simp add: getattr_def)

lemma getattr_Cons: "getattr ((k', v) # kvs) k = (if k' = k then Inr v else getattr kvs k)"
  by (simp add: getattr_def)

lemma bind_exc_Inl: "bind_exc (Inl x) f = Inl x"
  by (simp add: bind_exc_def)

lemma bind_exc_Inr: "bind_exc (Inr v) f = f v"
  by (simp add: bind_exc_def)

lemma getattr_err: "getattr p k = Inl a \<Longrightarrow> a = AttributeError k"
  by (auto simp: getattr_def split: option.splits)

lemma getattr_absent: "k \<notin> set (map fst p) \<Longrightarrow> getattr p k = Inl (AttributeError k)"
  by (simp add: getattr_def map_of_eq_None_iff[THEN iffD2])

lemmas stage_defs =
  dense_stack_def conv_stack_def deconv_stack_def push_stage_def opt_stage_def
  make_batchnorm_def make_dropout_def make_conv_def make_deconv_def make_maxpooling_def
  make_unpool_def make_unstride_def

text \<open>
  C4. Whatever the options are, a dense layer is built as transform, batch normalisation,
  dropout; a convolutional layer as transform, batch normalisation, pooling, dropout; a
  deconvolution layer as transform, batch normalisation, unpooling, unstriding, dropout.
  The transform is always there and is built on the layer's input; every other stage is
  there exactly when its option is truthy, so \<^verbatim>\<open>None\<close>, \<^verbatim>\<open>0\<close> and \<^verbatim>\<open>0.0\<close> leave
  it out; each stage is built on the one before it. The deconvolution builder is the only
  one that can raise: when the truthy \<^verbatim>\<open>pool_size\<close> is neither an int nor a sequence
  of numbers, \<^verbatim>\<open>_make_unpool\<close> cannot compute the padding.
\<close>

theorem stage_stack_fixed_order:
  "map stage_of (snd (dense_stack tr inp n label cfg)) =
      Transform # opt_stage (batchnorm cfg) Batchnorm @ opt_stage (dropout_rate cfg) Dropout
   \<and> chained (snd (dense_stack tr inp n label cfg))
   \<and> input_of (hd (snd (dense_stack tr inp n label cfg))) = Some inp
   \<and> map stage_of (snd (conv_stack tr inp n label ccfg)) =
      Transform # opt_stage (batchnorm ccfg) Batchnorm @ opt_stage (pool_size ccfg) Pool
        @ opt_stage (dropout_rate ccfg) Dropout
   \<and> chained (snd (conv_stack tr inp n label ccfg))
   \<and> input_of (hd (snd (conv_stack tr inp n label ccfg))) = Some inp
   \<and> (case deconv_stack tr inp n label ccfg of
         Inl e \<Rightarrow> truthy (pool_size ccfg) \<and> pad_size (pool_size ccfg) = Inl e
       | Inr st \<Rightarrow>
           map stage_of (snd st) =
             Transform # opt_stage (batchnorm ccfg) Batchnorm @ opt_stage (pool_size ccfg) Unpool
               @ opt_stage (strides ccfg) Unstride @ opt_stage (dropout_rate ccfg) Dropout
           \<and> chained (snd st) \<and> input_of (hd (snd st)) = Some inp)
   \<and> opt_stage PNone s = [] \<and> opt_stage (PInt 0) s = [] \<and> opt_stage (PFloat 0) s = []
   \<and> opt_stage (PBool False) s = []
   \<and> (opt_stage v s = [s]) = truthy v"
  by (auto simp: stage_defs Let_def split: sum.splits)

text \<open>
  The methods return the last entry of the stack, also for an option given as a plain
  dict, which is promoted to the option class first.
\<close>

lemma make_dense_layer_last:
  "make_dense_layer dl tr inp n label (LayerConfigObj c) = Inr (last (snd (dense_stack tr inp n label c)))"
  "make_dense_layer dl tr inp n label (Val (PDict d)) =
     Inr (last (snd (dense_stack tr inp n label (LayerConfig_init dl d))))"
  by simp_all

lemma deconv_stack_well_typed_pool:
  "pool_size ccfg = PNone \<or> pool_size ccfg = PInt k \<Longrightarrow>
     \<exists>st. deconv_stack tr inp n label ccfg = Inr st"
  by (auto simp: stage_defs Let_def)

section \<open>Properties of network construction\<close>

lemma BaseNetwork_setup_layers_unbound:
  "net_input self = None \<Longrightarrow>
     BaseNetwork_setup_layers self p =
       Inl (AttributeError (if map_of p ''in_size'' = None then ''in_size'' else ''input''))"
  by (auto simp: BaseNetwork_setup_layers_def getattr_val_def self_attr_def getattr_def
        bind_exc_def split: option.splits)

text \<open>
  C6. Building the baseline network always raises: \<^verbatim>\<open>setup_layers\<close> hands the dense
  layer \<^verbatim>\<open>self.input\<close>, an attribute the constructor assigns only from the result of
  \<^verbatim>\<open>setup_layers\<close> itself. No graph with a projection of the input placeholder comes
  out, for any params object.
\<close>

theorem baseline_network_never_built:
  "BaseNetwork_init BaseNetworkC dl dc p =
     Inl (AttributeError (if map_of p ''in_size'' = None then ''in_size'' else ''input''))"
  by (simp add: BaseNetwork_init_def BaseNetwork_setup_layers_unbound bind_exc_Inl)

text \<open>
  Were \<^verbatim>\<open>self.input\<close> bound to some handle \<open>h\<close>, the output would project \<open>h\<close>, and
  the loss would compare the target with the input placeholder, not with the output.
\<close>

lemma baseline_loss_on_input_placeholder:
  assumes "net_input self = Some h"
    and "BaseNetwork_setup_layers self p = Inr (i, out, t, l)"
  shows "l = LossSigmoidCE t i \<and> l \<noteq> LossSigmoidCE t out \<and> stage_of i = Input
         \<and> input_of out = Some h"
  using assms
  by (auto simp: BaseNetwork_setup_layers_def getattr_val_def self_attr_def bind_exc_def
        Let_def split: sum.splits)

text \<open>
  What \<^verbatim>\<open>DenseAutoencoderModel.setup_layers\<close> builds from a params object of its own
  class (sizes as lists, options promoted to option objects): the input placeholder of
  shape \<^verbatim>\<open>[None, in_size]\<close>, one dense layer per entry of \<^verbatim>\<open>encode_nodes\<close>, the
  bottleneck, one dense layer per entry of \<^verbatim>\<open>decode_nodes\<close>, the output layer of
  \<^verbatim>\<open>in_size\<close> units fitted to the target's shape, and the mean squared error between
  target and output.
\<close>

lemma dense_layer_path:
  "make_dense_layer dl tr inp n label (LayerConfigObj c) = Inr t \<Longrightarrow>
     map stage_of (layers_from t) = map stage_of (layers_from inp) @ dense_stages c
     \<and> concat (map units_of (layers_from t)) = concat (map units_of (layers_from inp)) @ [n]"
  by (auto simp: stage_defs Let_def)

lemma dense_layer_returns:
  "\<exists>t. make_dense_layer dl tr inp n label (LayerConfigObj c) = Inr t"
  by simp

lemma build_dense_layers:
  assumes cfg: "getattr p sp = Inr (LayerConfigObj c)"
  shows "layers \<noteq> [] \<Longrightarrow>
         \<exists>ls. build_layers (make_dense_layer dl tr) p sp label idx layers nodes = Inr ls
            \<and> ls \<noteq> [] \<and> hd ls = hd layers
            \<and> map stage_of (layers_from (last ls)) =
                 map stage_of (layers_from (last layers))
                 @ concat (replicate (length nodes) (dense_stages c))
            \<and> concat (map units_of (layers_from (last ls))) =
                 concat (map units_of (layers_from (last layers))) @ nodes"
proof (induction nodes arbitrary: idx layers)
  case Nil
  then show ?case by simp
next
  case (Cons n nodes)
  obtain t where t: "make_dense_layer dl tr (last layers) n (label @ str_of_nat idx)
                       (LayerConfigObj c) = Inr t"
    using dense_layer_returns by blast
  note path = dense_layer_path[OF t]
  have ne: "layers @ [t] \<noteq> []" by simp
  from Cons.IH[OF ne, of "Suc idx"] obtain ls where
    ls: "build_layers (make_dense_layer dl tr) p sp label (Suc idx) (layers @ [t]) nodes = Inr ls"
      "ls \<noteq> []" "hd ls = hd (layers @ [t])"
      "map stage_of (layers_from (last ls)) =
         map stage_of (layers_from (last (layers @ [t])))
         @ concat (replicate (length nodes) (dense_stages c))"
      "concat (map units_of (layers_from (last ls))) =
         concat (map units_of (layers_from (last (layers @ [t])))) @ nodes"
    by blast
  have "build_layers (make_dense_layer dl tr) p sp label idx layers (n # nodes) = Inr ls"
    using cfg t ls(1) by (simp add: bind_exc_def del: make_dense_layer.simps)
  then show ?case
    using ls(2-5) path Cons.prems by (simp del: make_dense_layer.simps)
qed

lemma dense_autoencoder_graph:
  assumes "getattr p ''in_size'' = Inr (Val v)"
    and "getattr p ''encode_nodes'' = Inr (Val (PList encode_nodes))"
    and "getattr p ''encode_params'' = Inr (LayerConfigObj ce)"
    and "getattr p ''bottleneck_dim'' = Inr (Val bottleneck_dim)"
    and "getattr p ''bottleneck_params'' = Inr (LayerConfigObj cb)"
    and "getattr p ''decode_nodes'' = Inr (Val (PList decode_nodes))"
    and "getattr p ''decode_params'' = Inr (LayerConfigObj cd)"
    and "getattr p ''output_params'' = Inr (LayerConfigObj co)"
  shows "\<exists>out_layer.
           DenseAutoencoderModel_setup_layers dl self p =
             Inr (Placeholder ''float'' ''input'' (Some [PNone, v]), out_layer,
                  Placeholder ''float'' ''target'' (Some [PNone, v]),
                  LossMSE (Placeholder ''float'' ''target'' (Some [PNone, v])) out_layer)
         \<and> get_shape out_layer = Some [PNone, v]
         \<and> map stage_of (layers_from out_layer) =
             Input # concat (replicate (length encode_nodes) (dense_stages ce))
             @ dense_stages cb
             @ concat (replicate (length decode_nodes) (dense_stages cd))
             @ dense_stages co @ [Fit]
         \<and> concat (map units_of (layers_from out_layer)) =
             encode_nodes @ [bottleneck_dim] @ decode_nodes @ [v]"
proof -
  let ?i = "Placeholder ''float'' ''input'' (Some [PNone, v])"
  let ?tr = "is_training self"
  from build_dense_layers[OF assms(3), of "[?i]" dl ?tr "''encode_''" 0 encode_nodes]
  obtain el where el:
    "build_layers (make_dense_layer dl ?tr) p ''encode_params'' ''encode_'' 0 [?i] encode_nodes = Inr el"
    "el \<noteq> []" "hd el = ?i"
    "map stage_of (layers_from (last el)) =
       [Input] @ concat (replicate (length encode_nodes) (dense_stages ce))"
    "concat (map units_of (layers_from (last el))) = encode_nodes"
    by auto
  obtain b where b: "make_dense_layer dl ?tr (last el) bottleneck_dim ''bottleneck''
                       (LayerConfigObj cb) = Inr b"
    using dense_layer_returns by blast
  note bp = dense_layer_path[OF b]
  from build_dense_layers[OF assms(7), of "[b]" dl ?tr "''decode_''" 0 decode_nodes]
  obtain dls where dls:
    "build_layers (make_dense_layer dl ?tr) p ''decode_params'' ''decode_'' 0 [b] decode_nodes = Inr dls"
    "dls \<noteq> []"
    "map stage_of (layers_from (last dls)) =
       map stage_of (layers_from b) @ concat (replicate (length decode_nodes) (dense_stages cd))"
    "concat (map units_of (layers_from (last dls))) =
       concat (map units_of (layers_from b)) @ decode_nodes"
    by auto
  obtain ol where ol: "make_dense_layer dl ?tr (last dls) v ''output_layer''
                       (LayerConfigObj co) = Inr ol"
    using dense_layer_returns by blast
  note op = dense_layer_path[OF ol]
  have "DenseAutoencoderModel_setup_layers dl self p =
          Inr (?i, FitToShape ol (Some [PNone, v]),
               Placeholder ''float'' ''target'' (Some [PNone, v]),
               LossMSE (Placeholder ''float'' ''target'' (Some [PNone, v]))
                 (FitToShape ol (Some [PNone, v])))"
    using assms el(1,3) b dls(1) ol
    by (simp add: DenseAutoencoderModel_setup_layers_def getattr_val_def bind_exc_def Let_def
          del: make_dense_layer.simps)
  then show ?thesis
    using el(4,5) bp dls(3,4) op by simp
qed

lemma ModelParams_init_attrs:
  "ModelParams_init e kwargs = (Inr p, e') \<Longrightarrow>
     map fst p = [''verb'', ''name'', ''path'', ''in_size'', ''out_size'', ''max_iter'',
                  ''batch_size'', ''num_epoch'']"
  by (auto simp: ModelParams_init_def Let_def split: sum.splits prod.splits)

text \<open>
  A \<^verbatim>\<open>ModelParams\<close> object has none of the attributes the autoencoder networks read
  (\<^verbatim>\<open>encode_nodes\<close>, ...), and the baseline network cannot be built from any params
  object; so no network class can be built from the params object the wrangler makes.
\<close>

lemma no_network_from_ModelParams:
  assumes "ModelParams_init e kwargs = (Inr p, e')"
  shows "\<exists>a. BaseNetwork_init cls dl dc p = Inl (AttributeError a)"
proof -
  have keys: "map fst p = [''verb'', ''name'', ''path'', ''in_size'', ''out_size'', ''max_iter'',
                  ''batch_size'', ''num_epoch'']"
    using assms by (rule ModelParams_init_attrs)
  have en: "getattr p ''encode_nodes'' = Inl (AttributeError ''encode_nodes'')"
    by (rule getattr_absent) (simp add: keys)
  show ?thesis
  proof (cases cls)
    case BaseNetworkC
    then show ?thesis
      by (simp add: BaseNetwork_init_def BaseNetwork_setup_layers_unbound bind_exc_Inl)
  next
    case DenseAutoencoderModelC
    then show ?thesis using en
      by (cases "getattr p ''in_size''")
         (auto simp: BaseNetwork_init_def DenseAutoencoderModel_setup_layers_def getattr_val_def
               bind_exc_def dest: getattr_err)
  next
    case ConvolutionalAutoencoderModelC
    then show ?thesis using en
      by (cases "getattr p ''in_size''")
         (auto simp: BaseNetwork_init_def ConvolutionalAutoencoderModel_setup_layers_def
               getattr_val_def bind_exc_def dest: getattr_err)
  qed
qed

lemma ModelWrangler_init_fails: "\<exists>x. fst (ModelWrangler_init dl dc e kw) = Inl x"
proof (cases "ModelParams_init e (filter (\<lambda>kv. fst kv \<noteq> ''model_type'') kw)")
  case (Pair r e1)
  show ?thesis
  proof (cases r)
    case (Inl x)
    then show ?thesis using Pair by (simp add: ModelWrangler_init_def)
  next
    case (Inr p)
    show ?thesis
    proof (cases "dict_get kw ''model_type'' (PClass BaseNetworkC)")
      case (PClass cls)
      from no_network_from_ModelParams[of e _ p e1 cls dl dc] Pair Inr
      obtain a where "BaseNetwork_init cls dl dc p = Inl (AttributeError a)" by auto
      then show ?thesis using Pair Inr PClass by (simp add: ModelWrangler_init_def)
    qed (use Pair Inr in \<open>simp_all add: ModelWrangler_init_def\<close>)
  qed
qed

lemma facade_init_fails: "\<exists>x. fst (facade_init m dl dc e kw) = Inl x"
  using ModelWrangler_init_fails by (simp add: facade_init_def Let_def)

lemma construct_fails: "\<exists>x. fst (construct cls dl dc e kw) = Inl x"
  by (cases cls)
     (simp_all add: ModelWrangler_init_fails facade_init_fails DenseAutoencoder_init_def
        ConvolutionalAutoencoder_init_def)


section \<open>Properties of restoring\<close>

lemma max_by_ctime_single:
  "length (fst best) = 1 \<Longrightarrow> \<forall>x \<in> set xs. length x = 1 \<Longrightarrow> max_by_ctime e best xs = Inr r
     \<Longrightarrow> length r = 1"
  by (induction xs arbitrary: best) (auto split: sum.splits if_splits)

lemma find_metagraph_single: "find_metagraph e self = Inr r \<Longrightarrow> length r = 1"
  by (auto simp: find_metagraph_def bind_exc_def split: sum.splits list.splits
      dest!: max_by_ctime_single[rotated 2])

lemma load_fails: "\<exists>x. fst (ModelWrangler_load cls dl dc latest e f) = Inl x"
proof (cases "read_json e f")
  case (Inl a)
  then show ?thesis by (simp add: ModelWrangler_load_def)
next
  case (Inr v)
  show ?thesis
  proof (cases v)
    case (PDict kw)
    obtain r e1 where c: "construct cls dl dc e kw = (r, e1)" by (cases "construct cls dl dc e kw")
    with construct_fails[of cls dl dc e kw] obtain x where "r = Inl x" by auto
    then show ?thesis using Inr PDict c by (simp add: ModelWrangler_load_def)
  qed (use Inr in \<open>simp_all add: ModelWrangler_load_def\<close>)
qed

text \<open>
  C5. \<^verbatim>\<open>find_metagraph\<close> does not locate a meta file. It takes the maximum over the
  characters of the pattern string, so it either raises or returns one character, never
  the name of a file matching \<^verbatim>\<open>*.meta\<close>. In a model directory \<^verbatim>\<open>m\<close> holding
  \<^verbatim>\<open>a.meta\<close> and the newer \<^verbatim>\<open>b.meta\<close> it raises \<^verbatim>\<open>OSError\<close>, at the character
  \<^verbatim>\<open>*\<close>, which names no file. \<^verbatim>\<open>load\<close> itself never gets that far: the wrangler it
  constructs first cannot be built.
\<close>

theorem find_metagraph_finds_no_meta_file:
  "(case find_metagraph e self of Inl x \<Rightarrow> True | Inr r \<Rightarrow> length r = 1)
   \<and> find_metagraph
        \<lparr> dirs = {''.'', ''/'', ''m''}, files = {''m/a.meta'', ''m/b.meta''},
          ctime = (\<lambda>p. if p = ''m/b.meta'' then 2 else 1), contents = (\<lambda>p. None),
          root_handlers = True \<rparr>
        [(''path'', Val (PStr ''m''))] = Inl OSError
   \<and> (\<exists>x. fst (ModelWrangler_load cls dl dc latest e f) = Inl x)"
proof -
  have "case find_metagraph e self of Inl x \<Rightarrow> True | Inr r \<Rightarrow> length r = 1"
    by (cases "find_metagraph e self") (simp_all add: find_metagraph_single)
  moreover have "find_metagraph
        \<lparr> dirs = {''.'', ''/'', ''m''}, files = {''m/a.meta'', ''m/b.meta''},
          ctime = (\<lambda>p. if p = ''m/b.meta'' then 2 else 1), contents = (\<lambda>p. None),
          root_handlers = True \<rparr>
        [(''path'', Val (PStr ''m''))] = Inl OSError"
    by (simp add: find_metagraph_def getattr_def bind_exc_def path_join_def getctime_def
          path_exists_def)
  ultimately show ?thesis using load_fails by blast
qed

section \<open>Properties of saving the params\<close>

lemma getattr_convert_in_place:
  "getattr (convert_in_place self) k =
     (case getattr self k of Inl x \<Rightarrow> Inl x | Inr v \<Rightarrow> Inr (to_plain v))"
  by (induction self) (auto simp: convert_in_place_def getattr_def)

lemma save_result_attrs:
  "BaseNetworkParams_save e self = (Inr (), self', e') \<Longrightarrow> self' = convert_in_place self"
  by (auto simp: BaseNetworkParams_save_def Let_def split: sum.splits prod.splits)

lemma convert_changes:
  "getattr self k = Inr (LayerConfigObj c) \<or> getattr self k = Inr (ConvLayerConfigObj c2)
     \<Longrightarrow> convert_in_place self \<noteq> self"
proof
  assume a: "getattr self k = Inr (LayerConfigObj c) \<or> getattr self k = Inr (ConvLayerConfigObj c2)"
    and eq: "convert_in_place self = self"
  have "getattr (convert_in_place self) k = getattr self k" by (simp add: eq)
  with a show False by (auto simp: getattr_convert_in_place)
qed

text \<open>
  C10. \<^verbatim>\<open>BaseNetworkParams.save()\<close> changes the object it saves. When it has returned,
  every attribute that held an option object (a \<^verbatim>\<open>LayerConfig\<close> or a
  \<^verbatim>\<open>ConvLayerConfig\<close>) holds the plain dict of that object's fields, every attribute
  that held a plain value holds it still, and if there was an option object at all the
  params object is no longer what it was before the call.
\<close>

theorem save_replaces_option_objects:
  assumes "BaseNetworkParams_save e self = (Inr (), self', e')"
  shows "(\<forall>k c. getattr self k = Inr (LayerConfigObj c)
            \<longrightarrow> getattr self' k = Inr (Val (PDict (LayerConfig_dict c))))
       \<and> (\<forall>k c. getattr self k = Inr (ConvLayerConfigObj c)
            \<longrightarrow> getattr self' k = Inr (Val (PDict (ConvLayerConfig_dict c))))
       \<and> (\<forall>k v. getattr self k = Inr (Val v) \<longrightarrow> getattr self' k = Inr (Val v))
       \<and> ((\<exists>k c. getattr self k = Inr (LayerConfigObj c))
            \<or> (\<exists>k c. getattr self k = Inr (ConvLayerConfigObj c)) \<longrightarrow> self' \<noteq> self)"
proof -
  have s: "self' = convert_in_place self" using assms by (rule save_result_attrs)
  show ?thesis
    unfolding s using convert_changes[of self]
    by (auto simp: getattr_convert_in_place)
qed

text \<open>
  Plain data survives \<^verbatim>\<open>json.dump\<close> followed by \<^verbatim>\<open>json.load\<close> unchanged, and is
  never refused by the encoder.
\<close>

lemma json_dump_load:
  "json_plain v \<Longrightarrow> json_dump v = Inr j \<Longrightarrow> json_load j = v"
  "json_plain_list vs \<Longrightarrow> json_dump_list vs = Inr js \<Longrightarrow> json_load_list js = vs"
  "json_plain_items kvs \<Longrightarrow> json_dump_items kvs = Inr jkvs \<Longrightarrow> json_load_items jkvs = kvs"
  by (induction v and vs and kvs arbitrary: j and js and jkvs
      rule: json_dump_json_dump_list_json_dump_items.induct)
     (auto split: sum.splits)

lemma json_dump_plain:
  "json_plain v \<Longrightarrow> \<exists>j. json_dump v = Inr j"
  "json_plain_list vs \<Longrightarrow> \<exists>js. json_dump_list vs = Inr js"
  "json_plain_items kvs \<Longrightarrow> \<exists>jkvs. json_dump_items kvs = Inr jkvs"
  by (induction v and vs and kvs
      rule: json_dump_json_dump_list_json_dump_items.induct)
     (auto split: sum.splits)

lemma map_of_vars_items:
  "map_of (map (\<lambda>kv. (fst kv, as_val (snd kv))) (convert_in_place self)) k =
     map_option (\<lambda>v. as_val (to_plain v)) (map_of self k)"
  by (induction self) (auto simp: convert_in_place_def)

lemma save_writes_document:
  assumes "BaseNetworkParams_save e self = (Inr (), self', e')"
    and "getattr self ''path'' = Inr (Val (PStr path))"
    and "getattr self ''name'' = Inr (Val (PStr name))"
  shows "\<exists>js. json_dump_items (map (\<lambda>kv. (fst kv, as_val (snd kv))) (convert_in_place self)) = Inr js
           \<and> read_json e' (path_join path (name @ ''-params.json'')) = Inr (PDict (json_load_items js))"
  using assms
  by (auto simp: BaseNetworkParams_save_def Let_def dump_to_file_def open_write_def vars_dict_def
        read_json_def bind_exc_def
      split: sum.splits prod.splits if_splits)

text \<open>
  Whatever the encoder accepts comes back from the file as the same value with its tuples
  turned into lists; plain data has no tuples and comes back unchanged.
\<close>

lemma json_dump_load_listify:
  "json_dump v = Inr j \<Longrightarrow> json_load j = listify v"
  "json_dump_list vs = Inr js \<Longrightarrow> json_load_list js = listify_list vs"
  "json_dump_items kvs = Inr jkvs \<Longrightarrow> json_load_items jkvs = listify_items kvs"
  by (induction v and vs and kvs arbitrary: j and js and jkvs
      rule: json_dump_json_dump_list_json_dump_items.induct)
     (auto split: sum.splits)

lemma listify_plain:
  "json_plain v \<Longrightarrow> listify v = v"
  "json_plain_list vs \<Longrightarrow> listify_list vs = vs"
  "json_plain_items kvs \<Longrightarrow> listify_items kvs = kvs"
  by (induction v and vs and kvs rule: json_plain_json_plain_list_json_plain_items.induct) auto

lemma json_items_lookup_listify:
  "json_dump_items kvs = Inr js \<Longrightarrow> map_of kvs k = Some v
     \<Longrightarrow> map_of (json_load_items js) k = Some (listify v)"
  by (induction kvs arbitrary: js)
     (auto split: sum.splits if_splits simp: json_dump_load_listify(1))

text \<open>
  C2, as the code has it. When \<^verbatim>\<open>p.save()\<close> has returned, reading the params file
  back with \<^verbatim>\<open>json.load\<close> (the first step of \<^verbatim>\<open>ModelWrangler.load\<close>) gives a dict
  that holds, under the attribute's name, every attribute of \<open>p\<close> that was not an option
  object with its tuples turned into lists and otherwise as it was, and for every option
  object the mapping of its fields, treated the same way. An attribute that is plain
  data (\<^verbatim>\<open>None\<close>, booleans, numbers, strings, lists and dicts of these) is reproduced
  exactly.
\<close>

theorem params_file_round_trip:
  assumes "BaseNetworkParams_save e self = (Inr (), self', e')"
    and "getattr self ''path'' = Inr (Val (PStr path))"
    and "getattr self ''name'' = Inr (Val (PStr name))"
  shows "\<exists>kw. read_json e' (path_join path (name @ ''-params.json'')) = Inr (PDict kw)
          \<and> (\<forall>k v. getattr self k = Inr (Val v) \<longrightarrow> map_of kw k = Some (listify v))
          \<and> (\<forall>k c. getattr self k = Inr (LayerConfigObj c)
                \<longrightarrow> map_of kw k = Some (PDict (listify_items (LayerConfig_dict c))))
          \<and> (\<forall>k c. getattr self k = Inr (ConvLayerConfigObj c)
                \<longrightarrow> map_of kw k = Some (PDict (listify_items (ConvLayerConfig_dict c))))
          \<and> (\<forall>v. json_plain v \<longrightarrow> listify v = v)
          \<and> (\<forall>kvs. json_plain_items kvs \<longrightarrow> listify_items kvs = kvs)"
proof -
  let ?items = "map (\<lambda>kv. (fst kv, as_val (snd kv))) (convert_in_place self)"
  from save_writes_document[OF assms] obtain js where
    d: "json_dump_items ?items = Inr js" and
    r: "read_json e' (path_join path (name @ ''-params.json'')) = Inr (PDict (json_load_items js))"
    by blast
  have look: "map_of (json_load_items js) k = Some (listify v)"
    if "map_of self k = Some a" "as_val (to_plain a) = v" for k a v
    using json_items_lookup_listify[OF d, of k v] that by (simp add: map_of_vars_items)
  have g: "getattr self k = Inr a \<Longrightarrow> map_of self k = Some a" for k a
    by (auto simp: getattr_def split: option.splits)
  show ?thesis
    using r by (auto dest!: g simp: look listify_plain)
qed

text \<open>Saving the example object in the example directory returns normally.\<close>

lemma demo_save_returns: "fst (BaseNetworkParams_save demo_env demo_params) = Inr ()"
  by (simp add: BaseNetworkParams_save_def demo_env_def demo_params_def demo_config_def
        getattr_def bind_exc_def make_dir_def makedirs_def path_exists_def path_join_def
        dump_to_file_def open_write_def dirname_def vars_dict_def convert_in_place_def
        LayerConfig_dict_def Let_def)

theorem save_replaces_option_objects_witness:
  "\<exists>self' e'. BaseNetworkParams_save demo_env demo_params = (Inr (), self', e')
      \<and> getattr self' ''encode_params'' = Inr (Val (PDict (LayerConfig_dict demo_config)))
      \<and> getattr self' ''name'' = Inr (Val (PStr ''autoenc''))
      \<and> self' \<noteq> demo_params"
proof -
  obtain s' e' where h: "BaseNetworkParams_save demo_env demo_params = (Inr (), s', e')"
    using demo_save_returns by (cases "BaseNetworkParams_save demo_env demo_params") auto
  have a: "getattr demo_params ''encode_params'' = Inr (LayerConfigObj demo_config)"
    and b: "getattr demo_params ''name'' = Inr (Val (PStr ''autoenc''))"
    by (simp_all add: demo_params_def getattr_def)
  from save_replaces_option_objects[OF h] a b show ?thesis using h by blast
qed

theorem params_file_round_trip_witness:
  "\<exists>kw. read_json (snd (snd (BaseNetworkParams_save demo_env demo_params))) ''m/autoenc-params.json''
           = Inr (PDict kw)
     \<and> map_of kw ''batch_size'' = Some (PInt 256)
     \<and> map_of kw ''encode_nodes'' = Some (PList [PInt 5, PInt 5])
     \<and> map_of kw ''encode_params'' = Some (PDict (LayerConfig_dict demo_config))"
proof -
  obtain s' e' where h: "BaseNetworkParams_save demo_env demo_params = (Inr (), s', e')"
    using demo_save_returns by (cases "BaseNetworkParams_save demo_env demo_params") auto
  have p: "getattr demo_params ''path'' = Inr (Val (PStr ''m''))"
    and n: "getattr demo_params ''name'' = Inr (Val (PStr ''autoenc''))"
    and a: "getattr demo_params ''batch_size'' = Inr (Val (PInt 256))"
    and b: "getattr demo_params ''encode_nodes'' = Inr (Val (PList [PInt 5, PInt 5]))"
    and c: "getattr demo_params ''encode_params'' = Inr (LayerConfigObj demo_config)"
    by (simp_all add: demo_params_def getattr_def)
  have pl: "json_plain (PInt 256)" "json_plain (PList [PInt 5, PInt 5])"
    "json_plain_items (LayerConfig_dict demo_config)"
    by (simp_all add: LayerConfig_dict_def demo_config_def)
  have f: "path_join ''m'' (''autoenc'' @ ''-params.json'') = ''m/autoenc-params.json''"
    by (simp add: path_join_def)
  from params_file_round_trip[OF h p n] a b c pl show ?thesis
    unfolding f using h by (auto simp: )
qed

text \<open>
  C2, as the claim has it, fails for a field that holds a tuple: a params object with
  \<^verbatim>\<open>in_size = (28, 28)\<close>, which the convolutional network accepts, is saved without
  error, and the file gives \<^verbatim>\<open>in_size\<close> back as the list \<^verbatim>\<open>[28, 28]\<close>.
\<close>

theorem tuple_field_comes_back_as_list:
  "fst (BaseNetworkParams_save demo_env demo_conv_params) = Inr ()
   \<and> getattr demo_conv_params ''in_size'' = Inr (Val (PTuple [PInt 28, PInt 28]))
   \<and> (\<exists>kw. read_json (snd (snd (BaseNetworkParams_save demo_env demo_conv_params)))
               ''m/conv_autoenc-params.json'' = Inr (PDict kw)
          \<and> map_of kw ''in_size'' = Some (PList [PInt 28, PInt 28]))"
  by (simp add: BaseNetworkParams_save_def demo_env_def demo_conv_params_def
        getattr_def bind_exc_def make_dir_def makedirs_def path_exists_def path_join_def
        dump_to_file_def open_write_def dirname_def vars_dict_def convert_in_place_def
        read_json_def Let_def)

section \<open>Properties of the artifact directories\<close>

















section \<open>Properties of feature importance\<close>

lemma sum_list_squares_nonneg: "0 \<le> sum_list (map (\<lambda>x. x * x) (xs :: rat list))"
  by (induction xs) auto

lemma np_mean_squares_nonneg:
  "xs \<noteq> [] \<Longrightarrow> nonneg (np_mean (map (\<lambda>x. x * x) xs))"
  by (simp add: np_mean_def sum_list_squares_nonneg)

lemma column_of_squared:
  "wf_array a \<Longrightarrow> j < ncols a \<Longrightarrow>
     map (\<lambda>r. r ! j) (rows (squared a)) = map (\<lambda>x. x * x) (map (\<lambda>r. r ! j) (rows a))"
  by (auto simp: squared_def wf_array_def list_all_iff)

text \<open>
  C7, as the code has it. For a gradient array of the input's shape with at least one row,
  \<^verbatim>\<open>feature_importance\<close> returns an array of one row (the batch axis is kept, with
  length one) and as many columns as the input has features; the entry of a feature is
  the mean over the batch of the squared gradient with respect to it, and is not negative.
\<close>

theorem feature_importance_one_row:
  assumes "wf_array (grad (x, y) False)" and "rows (grad (x, y) False) \<noteq> []"
  shows "length (feature_importance grad x y) = 1
       \<and> length (hd (feature_importance grad x y)) = ncols (grad (x, y) False)
       \<and> list_all nonneg (hd (feature_importance grad x y))
       \<and> (\<forall>j < ncols (grad (x, y) False).
            hd (feature_importance grad x y) ! j =
              np_mean (map (\<lambda>r. (r ! j) * (r ! j)) (rows (grad (x, y) False))))"
proof -
  let ?g = "grad (x, y) False"
  have n: "ncols (squared ?g) = ncols ?g" by (simp add: squared_def)
  have col: "map (\<lambda>r. r ! j) (rows (squared ?g)) = map (\<lambda>x. x * x) (map (\<lambda>r. r ! j) (rows ?g))"
    if "j < ncols ?g" for j using assms(1) that by (rule column_of_squared)
  have nn: "nonneg (np_mean (map (\<lambda>r. r ! j) (rows (squared ?g))))" if "j < ncols ?g" for j
    unfolding col[OF that] using assms(2) by (intro np_mean_squares_nonneg) simp
  show ?thesis
    using nn col
    by (auto simp: feature_importance_def np_mean_axis0_keepdims_def n list_all_iff Let_def
          comp_def)
qed

text \<open>
  C7, as the claim has it, fails: for three features and a batch of two the result is
  \<^verbatim>\<open>[[5, 4, 5]]\<close>, whose length is one, not three.
\<close>

theorem feature_importance_length_counterexample:
  "length (feature_importance (\<lambda>feed tr. \<lparr> ncols = 3, rows = [[1, - 2, 3], [3, 2, - 1]] \<rparr>) () ()) \<noteq> 3
   \<and> feature_importance (\<lambda>feed tr. \<lparr> ncols = 3, rows = [[1, - 2, 3], [3, 2, - 1]] \<rparr>) () ()
       = [[Finite 5, Finite 4, Finite 5]]"
  by (simp add: feature_importance_def np_mean_axis0_keepdims_def squared_def np_mean_def
        eval_nat_numeral upt_conv_Cons)

theorem feature_importance_one_row_witness:
  "length (feature_importance (\<lambda>feed tr. \<lparr> ncols = 3, rows = [[1, - 2, 3], [3, 2, - 1]] \<rparr>) () ()) = 1
   \<and> length (hd (feature_importance (\<lambda>feed tr. \<lparr> ncols = 3, rows = [[1, - 2, 3], [3, 2, - 1]] \<rparr>) () ())) = 3
   \<and> list_all nonneg (hd (feature_importance (\<lambda>feed tr. \<lparr> ncols = 3, rows = [[1, - 2, 3], [3, 2, - 1]] \<rparr>) () ()))"
proof -
  have w: "wf_array \<lparr> ncols = 3, rows = [[1, - 2, 3], [3, 2, - 1 :: rat]] \<rparr>"
    by (simp add: wf_array_def)
  have r: "rows \<lparr> ncols = 3, rows = [[1, - 2, 3], [3, 2, - 1 :: rat]] \<rparr> \<noteq> []" by simp
  from feature_importance_one_row[of "\<lambda>feed tr. \<lparr> ncols = 3, rows = [[1, - 2, 3], [3, 2, - 1]] \<rparr>" "()" "()", OF w r]
  show ?thesis by simp
qed

section \<open>Properties of training\<close>

lemma behavesD_None:
  "behaves f T \<Longrightarrow> pending s = None \<Longrightarrow> f s = (Inr (), s\<lparr>trace := trace s @ T\<rparr>)"
  by (auto simp: behaves_def split: option.splits dest!: spec[of _ s])

lemma behavesD_raise:
  "behaves f T \<Longrightarrow> pending s = Some (k, x) \<Longrightarrow> k < length (calls T) \<Longrightarrow>
     fst (f s) = Inl x \<and> pending (snd (f s)) = None
     \<and> calls (trace (snd (f s))) = calls (trace s) @ take k (calls T)"
  by (auto simp: behaves_def split: option.splits dest!: spec[of _ s])

lemma behavesD_pass:
  "behaves f T \<Longrightarrow> pending s = Some (k, x) \<Longrightarrow> \<not> k < length (calls T) \<Longrightarrow>
     f s = (Inr (), s\<lparr>trace := trace s @ T, pending := Some (k - length (calls T), x)\<rparr>)"
  by (auto simp: behaves_def split: option.splits dest!: spec[of _ s])

lemma behavesI:
  assumes "\<And>s. pending s = None \<Longrightarrow> f s = (Inr (), s\<lparr>trace := trace s @ T\<rparr>)"
    and "\<And>s k x. pending s = Some (k, x) \<Longrightarrow> k < length (calls T) \<Longrightarrow>
           fst (f s) = Inl x \<and> pending (snd (f s)) = None
           \<and> calls (trace (snd (f s))) = calls (trace s) @ take k (calls T)"
    and "\<And>s k x. pending s = Some (k, x) \<Longrightarrow> \<not> k < length (calls T) \<Longrightarrow>
           f s = (Inr (), s\<lparr>trace := trace s @ T, pending := Some (k - length (calls T), x)\<rparr>)"
  shows "behaves f T"
  unfolding behaves_def using assms by (auto split: option.splits)

lemma behaves_effect: "is_call ev \<Longrightarrow> behaves (effect ev) [ev]"
  by (rule behavesI) (auto simp: effect_def split: nat.splits)

lemma behaves_skip: "behaves (\<lambda>s. (Inr (), s)) []"
  by (rule behavesI) auto

lemma behaves_seq:
  assumes f: "behaves f T" and g: "behaves g U"
  shows "behaves (seq f g) (T @ U)"
proof (rule behavesI)
  fix s :: "('a, 'b) run_state"
  assume p: "pending s = None"
  show "seq f g s = (Inr (), s\<lparr>trace := trace s @ T @ U\<rparr>)"
    using behavesD_None[OF f p] behavesD_None[OF g, of "s\<lparr>trace := trace s @ T\<rparr>"] p
    by (simp add: seq_def)
next
  fix s :: "('a, 'b) run_state" and k x
  assume p: "pending s = Some (k, x)" and k: "k < length (calls (T @ U))"
  show "fst (seq f g s) = Inl x \<and> pending (snd (seq f g s)) = None
          \<and> calls (trace (snd (seq f g s))) = calls (trace s) @ take k (calls (T @ U))"
  proof (cases "k < length (calls T)")
    case True
    from behavesD_raise[OF f p True] show ?thesis
      using True by (cases "f s") (auto simp: seq_def)
  next
    case False
    let ?s1 = "s\<lparr>trace := trace s @ T, pending := Some (k - length (calls T), x)\<rparr>"
    have fs: "f s = (Inr (), ?s1)" by (rule behavesD_pass[OF f p False])
    have k': "k - length (calls T) < length (calls U)" using k False by simp
    from behavesD_raise[OF g _ k', of ?s1 x] show ?thesis
      using False by (simp add: seq_def fs)
  qed
next
  fix s :: "('a, 'b) run_state" and k x
  assume p: "pending s = Some (k, x)" and k: "\<not> k < length (calls (T @ U))"
  let ?s1 = "s\<lparr>trace := trace s @ T, pending := Some (k - length (calls T), x)\<rparr>"
  have nT: "\<not> k < length (calls T)" using k by simp
  have fs: "f s = (Inr (), ?s1)" by (rule behavesD_pass[OF f p nT])
  have k': "\<not> k - length (calls T) < length (calls U)" using k by simp
  from behavesD_pass[OF g _ k', of ?s1 x] show
    "seq f g s = (Inr (), s\<lparr>trace := trace s @ T @ U,
                            pending := Some (k - length (calls (T @ U)), x)\<rparr>)"
    by (simp add: seq_def fs)
qed

lemma behaves_with_session:
  assumes f: "behaves f T"
  shows "behaves (with_session f) (SessionOpen # T @ [SessionClose])"
proof (rule behavesI)
  fix s :: "('a, 'b) run_state"
  assume p: "pending s = None"
  show "with_session f s = (Inr (), s\<lparr>trace := trace s @ SessionOpen # T @ [SessionClose]\<rparr>)"
    using behavesD_None[OF f, of "s\<lparr>trace := trace s @ [SessionOpen]\<rparr>"] p
    by (simp add: with_session_def effect_def)
next
  fix s :: "('a, 'b) run_state" and k x
  assume p: "pending s = Some (k, x)" and k: "k < length (calls (SessionOpen # T @ [SessionClose]))"
  show "fst (with_session f s) = Inl x \<and> pending (snd (with_session f s)) = None
          \<and> calls (trace (snd (with_session f s)))
              = calls (trace s) @ take k (calls (SessionOpen # T @ [SessionClose]))"
  proof (cases k)
    case 0
    then show ?thesis using p by (simp add: with_session_def effect_def)
  next
    case (Suc j)
    let ?s1 = "s\<lparr>trace := trace s @ [SessionOpen], pending := Some (j, x)\<rparr>"
    have j: "j < length (calls T)" using k Suc by simp
    from behavesD_raise[OF f _ j, of ?s1 x] show ?thesis
      using p Suc by (cases "f ?s1") (auto simp: with_session_def effect_def)
  qed
next
  fix s :: "('a, 'b) run_state" and k x
  assume p: "pending s = Some (k, x)" and k: "\<not> k < length (calls (SessionOpen # T @ [SessionClose]))"
  then obtain j where Suc: "k = Suc j" by (cases k) auto
  let ?s1 = "s\<lparr>trace := trace s @ [SessionOpen], pending := Some (j, x)\<rparr>"
  have j: "\<not> j < length (calls T)" using k Suc by simp
  from behavesD_pass[OF f _ j, of ?s1 x] show
    "with_session f s = (Inr (), s\<lparr>trace := trace s @ SessionOpen # T @ [SessionClose],
        pending := Some (k - length (calls (SessionOpen # T @ [SessionClose])), x)\<rparr>)"
    using p Suc by (simp add: with_session_def effect_def)
qed

lemma behaves_if:
  "behaves f T \<Longrightarrow> behaves g U \<Longrightarrow> behaves (if b then f else g) (if b then T else U)"
  by simp

lemma behaves_score: "behaves (score h) (evaluation_events h)"
  unfolding score_def using behaves_with_session[OF behaves_effect, of "EvalLoss h False"]
  by simp

lemma behaves_run_batches:
  "behaves (run_batches h c bs :: ('a, 'c) step) (concat (map (batch_events h) (enumerate c bs)))"
proof (induction bs arbitrary: c)
  case Nil
  show ?case by (simp add: behaves_skip)
next
  case (Cons b bs)
  have 1: "behaves (effect (RunTrainStep b True)) [RunTrainStep b True :: ('a, 'c) event]"
    by (rule behaves_effect) simp
  have l: "behaves (effect (LogBatchNumber (c + 1))) [LogBatchNumber (c + 1) :: ('a, 'c) event]"
    and t: "behaves (effect LogTrainingScore) [LogTrainingScore :: ('a, 'c) event]"
    by (rule behaves_effect, simp)+
  have 2: "behaves (if (c + 1) mod 100 = 0
             then seq (effect (LogBatchNumber (c + 1)))
                    (seq (score h :: ('a, 'c) step) (effect LogTrainingScore))
             else (\<lambda>s. (Inr (), s)))
            (if (c + 1) mod 100 = 0
             then [LogBatchNumber (c + 1)] @ (evaluation_events h @ [LogTrainingScore]) else [])"
    by (rule behaves_if[OF behaves_seq[OF l behaves_seq[OF behaves_score t]] behaves_skip])
  have 3: "behaves (run_batches h (c + 1) bs :: ('a, 'c) step)
             (concat (map (batch_events h) (enumerate (c + 1) bs)))"
    by (rule Cons.IH)
  have e: "concat (map (batch_events h) (enumerate c (b # bs))) =
             [RunTrainStep b True :: ('a, 'c) event] @
               ((if (c + 1) mod 100 = 0
                 then [LogBatchNumber (c + 1)] @ (evaluation_events h @ [LogTrainingScore])
                 else [])
                @ concat (map (batch_events h) (enumerate (c + 1) bs)))"
    by (simp add: enumerate_simps)
  show ?case
    unfolding e run_batches.simps by (rule behaves_seq[OF 1 behaves_seq[OF 2 3]])
qed

lemma behaves_run_epoch:
  assumes "getattr self_params ''batch_size'' = Inr (Val bsz)"
  shows "behaves (run_epoch self_params ds call pos :: ('a, 'c) step)
           ([BalancedBatches pos bsz, GetHoldoutSamples]
            @ concat (map (batch_events (get_holdout_samples ds))
                        (enumerate 0 (balanced_batches ds call pos bsz))))"
proof -
  have eq: "run_epoch self_params ds call pos =
              seq (effect (BalancedBatches pos bsz))
                (seq (effect GetHoldoutSamples)
                   (run_batches (get_holdout_samples ds) 0 (balanced_batches ds call pos bsz)))"
    using assms by (simp add: run_epoch_def getattr_val_def bind_exc_def)
  have 1: "behaves (effect (BalancedBatches pos bsz)) [BalancedBatches pos bsz]"
    and 2: "behaves (effect GetHoldoutSamples) [GetHoldoutSamples :: ('a, 'c) event]"
    by (rule behaves_effect, simp)+
  have "behaves (run_epoch self_params ds call pos :: ('a, 'c) step)
          ([BalancedBatches pos bsz] @ ([GetHoldoutSamples]
            @ concat (map (batch_events (get_holdout_samples ds))
                        (enumerate 0 (balanced_batches ds call pos bsz)))))"
    unfolding eq by (rule behaves_seq[OF 1 behaves_seq[OF 2 behaves_run_batches]])
  then show ?thesis by simp
qed

lemma behaves_save:
  assumes "getattr self_params ''path'' = Inr (Val pth)"
  shows "behaves (save self_params it :: ('a, 'c) step)
           [ParamsSave, LogSavingWeights, SessionOpen, SaverSave pth it, SessionClose]"
proof -
  have eq: "save self_params it =
              seq (effect ParamsSave)
                (seq (effect LogSavingWeights) (with_session (effect (SaverSave pth it))))"
    using assms by (simp add: save_def getattr_val_def bind_exc_def)
  have 1: "behaves (effect ParamsSave) [ParamsSave :: ('a, 'c) event]"
    and 2: "behaves (effect LogSavingWeights) [LogSavingWeights :: ('a, 'c) event]"
    and 3: "behaves (effect (SaverSave pth it)) [SaverSave pth it :: ('a, 'c) event]"
    by (rule behaves_effect, simp)+
  have "behaves (save self_params it :: ('a, 'c) step)
          ([ParamsSave] @ ([LogSavingWeights] @ (SessionOpen # [SaverSave pth it] @ [SessionClose])))"
    unfolding eq by (rule behaves_seq[OF 1 behaves_seq[OF 2 behaves_with_session[OF 3]]])
  then show ?thesis by simp
qed

lemma behaves_run_epochs:
  assumes b: "getattr self_params ''batch_size'' = Inr (Val bsz)"
    and p: "getattr self_params ''path'' = Inr (Val pth)"
  shows "behaves (run_epochs self_params ds pos es :: ('a, 'c) step) (concat (map (epoch_events ds pos bsz pth) es))"
proof (induction es)
  case Nil
  show ?case by (simp add: behaves_skip)
next
  case (Cons e es)
  have 1: "behaves (effect (LogStartingEpoch e)) [LogStartingEpoch e :: ('a, 'c) event]"
    by (rule behaves_effect) simp
  have "behaves (run_epochs self_params ds pos (e # es) :: ('a, 'c) step)
          ([LogStartingEpoch e] @
            (([BalancedBatches pos bsz, GetHoldoutSamples]
               @ concat (map (batch_events (get_holdout_samples ds))
                           (enumerate 0 (balanced_batches ds e pos bsz))))
             @ ([ParamsSave, LogSavingWeights, SessionOpen, SaverSave pth e, SessionClose]
                @ concat (map (epoch_events ds pos bsz pth) es))))"
    unfolding run_epochs.simps
    by (rule behaves_seq[OF 1 behaves_seq[OF behaves_run_epoch[OF b]
          behaves_seq[OF behaves_save[OF p] Cons.IH]]])
  then show ?case by (simp del: run_epochs.simps)
qed

lemma behaves_train_body:
  assumes n: "getattr self_params ''num_epoch'' = Inr (Val (PInt n))"
    and b: "getattr self_params ''batch_size'' = Inr (Val bsz)"
    and p: "getattr self_params ''path'' = Inr (Val pth)"
  shows "behaves (train_body self_params ds pos :: ('a, 'c) step) (body_events ds pos bsz pth [0..<nat n])"
proof -
  have eq: "train_body self_params ds pos = with_session (run_epochs self_params ds pos [0..<nat n])"
    using n by (simp add: train_body_def getattr_val_def bind_exc_def)
  show ?thesis unfolding eq by (rule behaves_with_session[OF behaves_run_epochs[OF b p]])
qed

text \<open>
  C3. An undisturbed call of \<^verbatim>\<open>train\<close> on a wrangler whose params hold an integer
  \<^verbatim>\<open>num_epoch\<close>, a \<^verbatim>\<open>batch_size\<close> and a \<^verbatim>\<open>path\<close> returns, and what it does is
  exactly this: it builds the dataset provider with \<^verbatim>\<open>holdout_prop=0.1\<close>, opens a
  session, and for each epoch index from 0 up to \<^verbatim>\<open>num_epoch - 1\<close>, in order, asks the
  provider for balanced batches of \<^verbatim>\<open>batch_size\<close>, runs one training step on every
  batch with the training flag true, after every hundredth batch of the epoch logs and
  evaluates the loss on the holdout pair with the training flag false, and after the
  epoch's batches saves the params and a checkpoint tagged with the epoch's index; then
  it closes the session.
\<close>

theorem train_runs_every_epoch:
  assumes "getattr (params self) ''num_epoch'' = Inr (Val (PInt n))"
    and "getattr (params self) ''batch_size'' = Inr (Val batch_size)"
    and "getattr (params self) ''path'' = Inr (Val path)"
    and "pending s = None"
  shows "train DatasetManager self input_x target_y pos_classes s =
           (Inr (),
            s\<lparr>trace := trace s @ MakeDataset input_x target_y True (1 / 10) #
                 body_events (DatasetManager input_x target_y True (1 / 10)) pos_classes
                   batch_size path [0..<nat n]\<rparr>)"
proof -
  let ?s1 = "s\<lparr>trace := trace s @ [MakeDataset input_x target_y True (1 / 10)]\<rparr>"
  have "pending ?s1 = None" using assms(4) by simp
  from behavesD_None[OF behaves_train_body[OF assms(1-3)] this]
  show ?thesis using assms(4) by (simp add: train_def effect_def)
qed

text \<open>
  C8, as the code has it. A \<^verbatim>\<open>KeyboardInterrupt\<close> raised by any call inside the
  \<^verbatim>\<open>try\<close> block (the \<open>k\<close>-th call of \<^verbatim>\<open>train\<close>, counted from 0, with \<open>k\<close> at least 1
  and at most the number of calls of the block) is caught: \<^verbatim>\<open>train\<close> returns normally,
  no exception is left pending, the message is printed once, and the calls made before
  the interrupt, the training steps of the unfinished epoch among them, all stay done.
\<close>

theorem interrupt_in_try_block_is_caught:
  assumes "getattr (params self) ''num_epoch'' = Inr (Val (PInt n))"
    and "getattr (params self) ''batch_size'' = Inr (Val batch_size)"
    and "getattr (params self) ''path'' = Inr (Val path)"
    and "pending s = Some (k, KeyboardInterrupt)"
    and "0 < k"
    and "k \<le> length (calls (body_events (DatasetManager input_x target_y True (1 / 10))
                  pos_classes batch_size path [0..<nat n]))"
  shows "fst (train DatasetManager self input_x target_y pos_classes s) = Inr ()
       \<and> pending (snd (train DatasetManager self input_x target_y pos_classes s)) = None
       \<and> calls (trace (snd (train DatasetManager self input_x target_y pos_classes s))) =
           calls (trace s) @
           take k (MakeDataset input_x target_y True (1 / 10) #
                   calls (body_events (DatasetManager input_x target_y True (1 / 10))
                            pos_classes batch_size path [0..<nat n]))
           @ [Print ''Force-exiting training.'']"
proof -
  obtain j where k: "k = Suc j" using assms(5) by (cases k) auto
  let ?ds = "DatasetManager input_x target_y True (1 / 10)"
  let ?s1 = "s\<lparr>trace := trace s @ [MakeDataset input_x target_y True (1 / 10)],
               pending := Some (j, KeyboardInterrupt)\<rparr>"
  have p1: "pending ?s1 = Some (j, KeyboardInterrupt)" by simp
  have j: "j < length (calls (body_events ?ds pos_classes batch_size path [0..<nat n]))"
    using assms(6) k by simp
  note b = behavesD_raise[OF behaves_train_body[OF assms(1-3)] p1 j]
  show ?thesis
    using b assms(4) k
    by (cases "train_body (params self) ?ds pos_classes ?s1")
       (auto simp: train_def effect_def)
qed

text \<open>
  C8, as the claim has it, fails for the first call of \<^verbatim>\<open>train\<close>: the dataset provider
  is built before the \<^verbatim>\<open>try\<close>, and an interrupt raised there leaves \<^verbatim>\<open>train\<close> as an
  exception.
\<close>

theorem interrupt_before_try_block_propagates:
  "train demo_DatasetManager demo_wrangler () () ()
     \<lparr> trace = [], pending = Some (0, KeyboardInterrupt) \<rparr>
   = (Inl KeyboardInterrupt, \<lparr> trace = [], pending = None \<rparr>)"
  by (simp add: train_def effect_def)

lemma demo_epochs: "[0..<2] = [0, 1]"
  by (simp add: upt_conv_Cons)

lemma demo_attrs:
  "getattr (params demo_wrangler) ''num_epoch'' = Inr (Val (PInt 2))"
  "getattr (params demo_wrangler) ''batch_size'' = Inr (Val (PInt 250))"
  "getattr (params demo_wrangler) ''path'' = Inr (Val (PStr ''m''))"
  by (simp_all add: demo_wrangler_def getattr_def)

theorem train_runs_every_epoch_witness:
  "train demo_DatasetManager demo_wrangler () () () \<lparr> trace = [], pending = None \<rparr> =
     (Inr (),
      \<lparr> trace =
          [MakeDataset () () True (1 / 10), SessionOpen,
           LogStartingEpoch 0, BalancedBatches () (PInt 250), GetHoldoutSamples,
           RunTrainStep ((), ()) True,
           ParamsSave, LogSavingWeights, SessionOpen, SaverSave (PStr ''m'') 0, SessionClose,
           LogStartingEpoch 1, BalancedBatches () (PInt 250), GetHoldoutSamples,
           RunTrainStep ((), ()) True,
           ParamsSave, LogSavingWeights, SessionOpen, SaverSave (PStr ''m'') 1, SessionClose,
           SessionClose],
        pending = None \<rparr>)"
proof -
  have p: "pending \<lparr> trace = [] :: (unit, unit) event list, pending = None \<rparr> = None" by simp
  from train_runs_every_epoch[OF demo_attrs p, of demo_DatasetManager "()" "()" "()"]
  show ?thesis
    by (simp add: demo_epochs demo_DatasetManager_def enumerate_simps)
qed

theorem interrupt_in_try_block_is_caught_witness:
  "fst (train demo_DatasetManager demo_wrangler () () ()
          \<lparr> trace = [], pending = Some (5, KeyboardInterrupt) \<rparr>) = Inr ()
   \<and> pending (snd (train demo_DatasetManager demo_wrangler () () ()
          \<lparr> trace = [], pending = Some (5, KeyboardInterrupt) \<rparr>)) = None
   \<and> calls (trace (snd (train demo_DatasetManager demo_wrangler () () ()
          \<lparr> trace = [], pending = Some (5, KeyboardInterrupt) \<rparr>))) =
       [MakeDataset () () True (1 / 10), SessionOpen, LogStartingEpoch 0,
        BalancedBatches () (PInt 250), GetHoldoutSamples, Print ''Force-exiting training.'']"
proof -
  have p: "pending \<lparr> trace = [] :: (unit, unit) event list,
                     pending = Some (5, KeyboardInterrupt) \<rparr> = Some (5, KeyboardInterrupt)"
    by simp
  have k: "(0::nat) < 5" by simp
  have l: "5 \<le> length (calls (body_events (demo_DatasetManager () () True (1 / 10)) ()
                  (PInt 250) (PStr ''m'') [0..<nat 2]))"
    by (simp add: demo_epochs demo_DatasetManager_def enumerate_simps)
  from interrupt_in_try_block_is_caught[where DatasetManager = demo_DatasetManager
      and input_x = "()" and target_y = "()" and pos_classes = "()", OF demo_attrs p k l]
  show ?thesis
    by (simp add: demo_epochs demo_DatasetManager_def enumerate_simps)
qed

end
